theory Spec2Isabelle
  imports Main
begin

section \<open>JavaScript primitives the services rely on\<close>

text \<open>
  The services are TypeScript. The few array and truthiness primitives whose exact
  behaviour decides a property are written out here: \<open>Array.prototype.findIndex\<close>
  answers \<open>-1\<close> when no element matches, \<open>Array.prototype.slice\<close> counts a negative
  bound from the end of the array, \<open>!x\<close> is true of \<open>0\<close> but false of \<open>-1\<close>, and an
  empty or undefined string is falsy.
\<close>

fun findIndex :: "('a \<Rightarrow> bool) \<Rightarrow> 'a list \<Rightarrow> int" where
  "findIndex P [] = - 1"
| "findIndex P (x # xs) =
     (if P x then 0 else (let i = findIndex P xs in if i = - 1 then - 1 else i + 1))"

definition indexOf :: "'a list \<Rightarrow> 'a \<Rightarrow> int" where
  "indexOf xs v = findIndex (\<lambda>x. x = v) xs"

text \<open>\<open>xs.slice(start, end)\<close>: a negative bound is an offset from the end, every bound is
  clamped into \<open>[0, length]\<close>, and an empty range gives the empty array.\<close>

definition slice :: "'a list \<Rightarrow> int \<Rightarrow> int \<Rightarrow> 'a list" where
  "slice xs start end' =
     (let n = int (length xs);
          k = (if start < 0 then max (n + start) 0 else min start n);
          f = (if end' < 0 then max (n + end') 0 else min end' n)
      in take (nat (f - k)) (drop (nat k) xs))"

text \<open>\<open>xs[i] = v\<close> as the persisted array sees it: a negative index sets a property of the
  array object that is no element (and is dropped when the chat is serialised), an index in
  range replaces the element.\<close>

definition assignIndex :: "'a list \<Rightarrow> int \<Rightarrow> 'a \<Rightarrow> 'a list" where
  "assignIndex xs i v = (if 0 \<le> i \<and> i < int (length xs) then xs[nat i := v] else xs)"

text \<open>Truthiness of a value that is a string or undefined.\<close>

fun truthy :: "string option \<Rightarrow> bool" where
  "truthy None = False"
| "truthy (Some s) = (s \<noteq> [])"

text \<open>\<open>a.getTime() < b.getTime()\<close>: false when either side is \<open>NaN\<close>.\<close>

fun earlier :: "int option \<Rightarrow> int option \<Rightarrow> bool" where
  "earlier (Some a) (Some b) = (a < b)"
| "earlier _ _ = False"

section \<open>Messages\<close>

text \<open>
  The message types the sources refer to (the enum's own declaration is not among the
  source files): \<open>MessageTypes.STRING\<close> \<dots> \<open>MessageTypes.READ\<close> of the switch in
  \<open>parseMessage\<close>, and \<open>MessageType.SYSTEM\<close> of the message controller.
\<close>

datatype MessageType =
  STRING | GIF | CONTACT_REQUEST | GROUP_UPDATE | FILE_UPLOAD | FILE | FILE_SHARE
  | EDIT | DELETE | QUOTE | READ | SYSTEM

text \<open>
  A message as \<open>message.model.ts\<close> and the \<open>Message\<close> constructor calls of \<open>parseMessage\<close>
  have it. The body is type specific: a string (also a message id, for \<open>READ\<close>), an uploaded
  file \<open>{name, parsedFile}\<close>, a stored file \<open>{filename}\<close>, or a whole message (the payload
  of an \<open>EDIT\<close>). A time stamp is what \<open>Date.getTime()\<close> answers: the milliseconds of
  the date, \<open>None\<close> for the \<open>NaN\<close> of an invalid date.
\<close>

datatype body =
    StringBody string
  | FileUploadBody string string
  | FileBody "string option"
  | MessageBody message
and message =
  Message (msg_from: string) (msg_to: string) (body: body) (timeStamp: "int option") (msg_id: string)
    (msg_type: MessageType) (replies: "message list") (subject: "string option")
    (signatures: "string list") (updated: "int option")

fun set_from :: "message \<Rightarrow> string \<Rightarrow> message" where
  "set_from (Message f t b ts i ty rs sj sg u) f' = Message f' t b ts i ty rs sj sg u"

fun set_body :: "message \<Rightarrow> body \<Rightarrow> message" where
  "set_body (Message f t b ts i ty rs sj sg u) b' = Message f t b' ts i ty rs sj sg u"

fun set_id :: "message \<Rightarrow> string \<Rightarrow> message" where
  "set_id (Message f t b ts i ty rs sj sg u) i' = Message f t b ts i' ty rs sj sg u"

fun set_type :: "message \<Rightarrow> MessageType \<Rightarrow> message" where
  "set_type (Message f t b ts i ty rs sj sg u) ty' = Message f t b ts i ty' rs sj sg u"

fun set_replies :: "message \<Rightarrow> message list \<Rightarrow> message" where
  "set_replies (Message f t b ts i ty rs sj sg u) rs' = Message f t b ts i ty rs' sj sg u"

fun set_signatures :: "message \<Rightarrow> string list \<Rightarrow> message" where
  "set_signatures (Message f t b ts i ty rs sj sg u) sg' = Message f t b ts i ty rs sj sg' u"

fun set_updated :: "message \<Rightarrow> int option \<Rightarrow> message" where
  "set_updated (Message f t b ts i ty rs sj sg u) u' = Message f t b ts i ty rs sj sg u'"

section \<open>Contacts, keys, chats and the node's repositories\<close>

record Contact =
  contact_id :: string
  location :: string

datatype KeyType = Public | Private

text \<open>A key entity. \<open>userId\<close> is the schema field the lookups search by, undefined on an
  entity that was created without it; \<open>key\<close> is the base64 key material (undefined or
  empty when there is none).\<close>

record Key =
  userId :: "string option"
  key :: "string option"
  keyType :: KeyType

text \<open>The chat entity of \<open>createChat\<close>; \<open>read\<close> is the redis string array.\<close>

record Chat =
  entityId :: string
  chatId :: string
  name :: string
  contacts :: "Contact list"
  messages :: "message list"
  acceptedChat :: bool
  adminId :: string
  read :: "string list"
  isGroup :: bool
  draft :: "message list"

text \<open>
  The exceptions the modelled code raises. \<open>ForbiddenException\<close> and
  \<open>BadRequestException\<close> carry their message; \<open>TypeError\<close> is what JavaScript raises
  on a property access or a destructuring of \<open>null\<close> or \<open>undefined\<close>;
  \<open>TransportError\<close> stands for the rejection of a failed \<open>sendMessageToApi\<close>;
  \<open>NotFound\<close> for a chat file the legacy data service cannot read.
\<close>

datatype error =
    ForbiddenException string
  | BadRequestException string
  | TypeError
  | TransportError
  | NotFound

abbreviation Blocked :: error where
  "Blocked \<equiv> ForbiddenException ''blocked''"

abbreviation Unauthorized :: error where
  "Unauthorized \<equiv> ForbiddenException ''not allowed''"

text \<open>
  The state of the node that the modelled services read and write: the redis
  repositories of chats, keys and blocked contacts, and two logs of outward effects, the
  payloads handed to \<open>sendMessageToApi\<close> (location and message, \<open>None\<close> for
  \<open>undefined\<close>) and the events emitted to the connected sockets.
\<close>

record world =
  chatRepo :: "Chat list"
  keyRepo :: "Key list"
  blockedRepo :: "Contact list"
  sentToApi :: "(string \<times> message option) list"
  emitted :: "(string \<times> message) list"

text \<open>
  The collaborators whose code is not among the source files are parameters: the
  configured user id, the two functions of \<open>EncryptionService\<close>, the public-key fetch and
  the delivery of \<open>ApiService\<close> (a delivery succeeds or rejects, by location), and
  \<open>determineChatID\<close> and \<open>verifySignedMessage\<close> of \<open>MessageService\<close>. The two message
  state handlers registered by the message controller take the message, the chat and
  the node's state.
\<close>

record env =
  configUserId :: string
  createBase64Signature :: "message \<Rightarrow> string \<Rightarrow> string"
  verifySignature :: "message \<Rightarrow> string \<Rightarrow> string \<Rightarrow> bool"
  getContactPublicKey :: "string \<Rightarrow> string option"
  delivers :: "string \<Rightarrow> bool"
  determineChatID :: "message \<Rightarrow> string"
  verifySignedMessage :: "Contact option \<Rightarrow> message \<Rightarrow> bool"
  contactRequestHandle :: "message \<Rightarrow> Chat \<Rightarrow> world \<Rightarrow> (error + unit) \<times> world"
  systemHandle :: "message \<Rightarrow> Chat \<Rightarrow> world \<Rightarrow> (error + unit) \<times> world"

section \<open>KeyService (key.service.ts)\<close>

text \<open>\<open>search().where('userId').equals(..).and('keyType').equals(..).return.first()\<close>:
  the first matching entity, \<open>null\<close> when there is none.\<close>

definition getKey :: "env \<Rightarrow> world \<Rightarrow> KeyType \<Rightarrow> Key option" where
  "getKey E w kt = find (\<lambda>k. userId k = Some (configUserId E) \<and> keyType k = kt) (keyRepo w)"

definition getPublicKeyByUserID :: "world \<Rightarrow> string \<Rightarrow> Key option" where
  "getPublicKeyByUserID w uid = find (\<lambda>k. userId k = Some uid \<and> keyType k = Public) (keyRepo w)"

text \<open>
  \<open>addContactPublicKey\<close>, lines 61-71: \<open>createAndSave({ userID, key, keyType })\<close>. The
  contact's id is passed under the name \<open>userID\<close>, which is not the field \<open>userId\<close> that
  \<open>getKey\<close> and \<open>getPublicKeyByUserID\<close> search by: the saved entity has no \<open>userId\<close>, and
  no lookup finds it again.
\<close>

definition addContactPublicKey :: "world \<Rightarrow> string \<Rightarrow> string \<Rightarrow> world" where
  "addContactPublicKey w k uid =
     w\<lparr>keyRepo := keyRepo w @ [\<lparr>userId = None, key = Some k, keyType = Public\<rparr>]\<rparr>"

text \<open>
  \<open>appendSignatureToMessage\<close>, lines 109-115. \<open>const { key } = await this.getKey(..)\<close>
  raises a \<open>TypeError\<close> when the lookup answered \<open>null\<close>; \<open>if (!key) return;\<close> answers
  \<open>undefined\<close> (\<open>Inr None\<close>) and leaves the message as it is; otherwise the signature over
  the message with its current signatures is put in front of them (\<open>unshift\<close>) and the
  message is returned.
\<close>

definition appendSignatureToMessage :: "env \<Rightarrow> world \<Rightarrow> message \<Rightarrow> error + message option" where
  "appendSignatureToMessage E w message =
     (case getKey E w Private of
        None \<Rightarrow> Inl TypeError
      | Some k \<Rightarrow>
          if \<not> truthy (key k) then Inr None
          else Inr (Some (set_signatures message
                 (createBase64Signature E message (the (key k)) # signatures message))))"

text \<open>
  \<open>verifyMessageSignature\<close>, lines 124-154. \<open>if (!signatureIdx) return false;\<close> takes
  the early return exactly when the index is \<open>0\<close>: \<open>-1\<close> (no such signature) is truthy and
  goes on. The public key is the cached one; a cached entity without key material makes
  the service fetch the key from the contact's location and cache it. The message is
  verified with the signatures after the index.
\<close>

definition verifyMessageSignature ::
  "env \<Rightarrow> world \<Rightarrow> Contact \<Rightarrow> message \<Rightarrow> string \<Rightarrow> (error + bool) \<times> world" where
  "verifyMessageSignature E w contact message signature =
     (let signatureIdx = findIndex (\<lambda>s. s = signature) (signatures message) in
      if signatureIdx = 0 then (Inr False, w)
      else
        (case getPublicKeyByUserID w (contact_id contact) of
           None \<Rightarrow> (Inl TypeError, w)
         | Some k \<Rightarrow>
             let messageWithoutSignature = set_signatures message
                   (slice (signatures message) (signatureIdx + 1) (int (length (signatures message))))
             in
             if \<not> truthy (key k) then
               (let base64key = getContactPublicKey E (location contact) in
                if \<not> truthy base64key then (Inr False, w)
                else (Inr (verifySignature E messageWithoutSignature signature (the base64key)),
                      addContactPublicKey w (the base64key) (contact_id contact)))
             else (Inr (verifySignature E messageWithoutSignature signature (the (key k))), w)))"

section \<open>ChatService (chat.service.ts)\<close>

text \<open>\<open>search().where('chatId').eq(chatId).return.first()\<close>: the first chat with that
  id, \<open>null\<close> when there is none (the \<open>catch\<close> around it is for a failing search).\<close>

definition getChat :: "world \<Rightarrow> string \<Rightarrow> Chat option" where
  "getChat w cid = find (\<lambda>c. chatId c = cid) (chatRepo w)"

text \<open>\<open>_chatRepo.save(chat)\<close> writes the entity under its entity id.\<close>

definition save :: "world \<Rightarrow> Chat \<Rightarrow> world" where
  "save w chat =
     w\<lparr>chatRepo :=
         (if find (\<lambda>c. entityId c = entityId chat) (chatRepo w) = None then chatRepo w @ [chat]
          else map (\<lambda>c. if entityId c = entityId chat then chat else c) (chatRepo w))\<rparr>"

text \<open>Truthiness of a value that is a number or null.\<close>

fun truthyNumber :: "int option \<Rightarrow> bool" where
  "truthyNumber None = False"
| "truthyNumber (Some n) = (n \<noteq> 0)"

text \<open>
  \<open>getChatMessages\<close>, lines 122-145. \<open>chat.parseMessages()\<close> on a chat that was not
  found raises a \<open>TypeError\<close>. The result is the pair \<open>(hasMore, messages)\<close>.
\<close>

definition getChatMessages ::
  "world \<Rightarrow> string \<Rightarrow> string option \<Rightarrow> int option \<Rightarrow> int \<Rightarrow> error + (bool \<times> message list)" where
  "getChatMessages w cid from' page limit =
     (case getChat w cid of
        None \<Rightarrow> Inl TypeError
      | Some chat \<Rightarrow>
          let parsedMessages = messages chat;
              end' = (if truthyNumber page then int (length parsedMessages) - the page * limit
                      else if truthy from' then findIndex (\<lambda>m. Some (msg_id m) = from') parsedMessages
                      else int (length parsedMessages));
              start = end' - limit
          in Inr (start \<noteq> 0, slice parsedMessages start end'))"

text \<open>\<open>addMessageToChat\<close>, lines 166-175: the message is pushed and the chat saved.\<close>

definition addMessageToChat :: "world \<Rightarrow> Chat \<Rightarrow> message \<Rightarrow> world" where
  "addMessageToChat w chat message = save w (chat\<lparr>messages := messages chat @ [message]\<rparr>)"

text \<open>The body of a message when it is a string.\<close>

fun bodyText :: "body \<Rightarrow> string option" where
  "bodyText (StringBody s) = Some s"
| "bodyText _ = None"

text \<open>
  \<open>handleMessageRead\<close>, lines 192-206. \<open>oldIdx\<close> is the index of the sender's id in
  \<open>chat.read\<close>; only when it is found does the function do anything: it looks up the
  message whose id is \<open>chat.read[oldIdx]\<close>, compares the time stamps (a \<open>TypeError\<close> when
  either message was not found) and overwrites \<open>chat.read[oldIdx]\<close> with the body.
\<close>

definition handleMessageRead :: "env \<Rightarrow> world \<Rightarrow> message \<Rightarrow> (error + unit) \<times> world" where
  "handleMessageRead E w message =
     (case getChat w (determineChatID E message) of
        None \<Rightarrow> (Inl TypeError, w)
      | Some chat \<Rightarrow>
          let chatMessages = messages chat;
              newRead = (case bodyText (body message) of
                           None \<Rightarrow> None
                         | Some b \<Rightarrow> find (\<lambda>m. msg_id m = b) chatMessages);
              oldIdx = indexOf (read chat) (msg_from message)
          in
          if oldIdx > - 1 then
            (let oldRead = find (\<lambda>m. msg_id m = read chat ! nat oldIdx) chatMessages in
             case newRead of
               None \<Rightarrow> (Inl TypeError, w)
             | Some new \<Rightarrow>
                 (case oldRead of
                    None \<Rightarrow> (Inl TypeError, w)
                  | Some old \<Rightarrow>
                      if \<not> earlier (timeStamp new) (timeStamp old)
                      then (Inr (), save w (chat\<lparr>read :=
                              (read chat)[nat oldIdx := the (bodyText (body message))]\<rparr>))
                      else (Inr (), w)))
          else (Inr (), w))"

text \<open>
  \<open>handleGroupAdmin\<close>, lines 224-243. The sender's signature is verified, the node signs
  the message (in place, so the caller's message carries the signature afterwards), and
  one \<open>sendMessageToApi\<close> per contact other than the local user is started; every send is
  logged in \<open>sentToApi\<close>. \<open>Promise.all\<close> rejects when one of them rejects, and the
  rejection leaves \<open>handleGroupAdmin\<close> as an exception. The result carries the
  caller's message as the function leaves it.
\<close>

definition handleGroupAdmin ::
  "env \<Rightarrow> world \<Rightarrow> Chat \<Rightarrow> message \<Rightarrow> (error + message) \<times> world" where
  "handleGroupAdmin E w chat message =
     (let validSignature =
            verifySignedMessage E (find (\<lambda>c. contact_id c = msg_from message) (contacts chat)) message
      in
      if \<not> validSignature
      then (Inl (BadRequestException ''failed to verify message signature''), w)
      else
        (case appendSignatureToMessage E w message of
           Inl e \<Rightarrow> (Inl e, w)
         | Inr signedMessage \<Rightarrow>
             let receivingContacts = filter (\<lambda>c. contact_id c \<noteq> configUserId E) (contacts chat);
                 w' = w\<lparr>sentToApi :=
                        sentToApi w @ map (\<lambda>c. (location c, signedMessage)) receivingContacts\<rparr>
             in
             if filter (\<lambda>c. \<not> delivers E (location c)) receivingContacts = []
             then (Inr (case signedMessage of None \<Rightarrow> message | Some m \<Rightarrow> m), w')
             else (Inl TransportError, w')))"

section \<open>MessageController\<close>

text \<open>
  Modelled from the spec: \<open>BlockedContactService.getBlockedContactList\<close> is not among
  the source files; section 6 gives \<open>listBlocked(offset, count) -> list of id\<close>, a page
  of the blocked contacts, as \<open>getChats\<close> pages the chats with
  \<open>search().return.page(offset, count)\<close>.
\<close>

definition getBlockedContactList :: "world \<Rightarrow> nat \<Rightarrow> nat \<Rightarrow> Contact list" where
  "getBlockedContactList w offset count = take count (drop offset (blockedRepo w))"

text \<open>The handler map of the constructor: two entries.\<close>

definition messageStateHandlers ::
  "env \<Rightarrow> MessageType \<Rightarrow> (message \<Rightarrow> Chat \<Rightarrow> world \<Rightarrow> (error + unit) \<times> world) option" where
  "messageStateHandlers E t =
     (if t = CONTACT_REQUEST then Some (contactRequestHandle E)
      else if t = SYSTEM then Some (systemHandle E)
      else None)"

text \<open>
  \<open>handleIncomingMessage\<close>, lines 50-61: everything the controller does before it
  dispatches. The blocked page is loaded and searched for the sender; the chat is looked
  up (\<open>chat.adminId\<close> or \<open>chat.isGroup\<close> of a chat that was not found raises a
  \<open>TypeError\<close>); a \<open>SYSTEM\<close> message must come from the chat's admin; and the admin of a
  group forwards the message. What is admitted is the message (as \<open>handleGroupAdmin\<close>
  left it) and the chat.
\<close>

definition admitIncomingMessage ::
  "env \<Rightarrow> world \<Rightarrow> message \<Rightarrow> nat \<Rightarrow> nat \<Rightarrow> (error + message \<times> Chat) \<times> world" where
  "admitIncomingMessage E w message offset count =
     (let blockedContacts = getBlockedContactList w offset count;
          isBlocked = find (\<lambda>c. contact_id c = msg_from message) blockedContacts
      in
      if isBlocked \<noteq> None then (Inl Blocked, w)
      else
        (case getChat w (determineChatID E message) of
           None \<Rightarrow> (Inl TypeError, w)
         | Some chat \<Rightarrow>
             if msg_type message = SYSTEM \<and> adminId chat \<noteq> msg_from message
             then (Inl Unauthorized, w)
             else if isGroup chat \<and> adminId chat = configUserId E
             then (case handleGroupAdmin E w chat message of
                     (Inl e, w') \<Rightarrow> (Inl e, w')
                   | (Inr message', w') \<Rightarrow> (Inr (message', chat), w'))
             else (Inr (message, chat), w)))"

text \<open>
  \<open>handleIncomingMessage\<close>, lines 44-64: admission, then line 63,
  \<open>this._messageStateHandlers.get(message.type).handle({ message, chat })\<close>, a
  \<open>TypeError\<close> for a type without a registered handler.
\<close>

definition MessageController_handleIncomingMessage ::
  "env \<Rightarrow> world \<Rightarrow> message \<Rightarrow> nat \<Rightarrow> nat \<Rightarrow> (error + unit) \<times> world" where
  "MessageController_handleIncomingMessage E w message offset count =
     (case admitIncomingMessage E w message offset count of
        (Inl e, w') \<Rightarrow> (Inl e, w')
      | (Inr (message', chat), w') \<Rightarrow>
          (case messageStateHandlers E (msg_type message') of
             None \<Rightarrow> (Inl TypeError, w')
           | Some h \<Rightarrow> h message' chat w'))"

section \<open>ChatGateway (chat.gateway.ts)\<close>

definition emitMessageToConnectedClients :: "world \<Rightarrow> string \<Rightarrow> message \<Rightarrow> world" where
  "emitMessageToConnectedClients w event message = w\<lparr>emitted := emitted w @ [(event, message)]\<rparr>"

text \<open>
  \<open>handleIncomingMessage\<close> of the gateway, lines 42-68. The sender is overwritten with
  the configured user id first. \<open>signedMessage\<close> is the message object itself once it is
  signed, so \<open>signedMessage.id = message.id\<close> changes nothing, and it raises a
  \<open>TypeError\<close> when the signing answered \<open>undefined\<close>. \<open>addMessageToChat\<close> is not
  awaited.
\<close>

definition ChatGateway_handleIncomingMessage ::
  "env \<Rightarrow> world \<Rightarrow> message \<Rightarrow> (error + unit) \<times> world" where
  "ChatGateway_handleIncomingMessage E w payload =
     (let message = set_from payload (configUserId E) in
      case appendSignatureToMessage E w message of
        Inl e \<Rightarrow> (Inl e, w)
      | Inr signedMessage \<Rightarrow>
          (case getChat w (msg_from message @ ''-'' @ msg_to message) of
             None \<Rightarrow> (Inr (), w)
           | Some chat \<Rightarrow>
               (case signedMessage of
                  None \<Rightarrow> (Inl TypeError, w)
                | Some sm \<Rightarrow>
                    if msg_type sm = READ
                    then handleMessageRead E (emitMessageToConnectedClients w ''message'' sm) sm
                    else (Inr (),
                          addMessageToChat (emitMessageToConnectedClients w ''message'' sm) chat sm))))"

section \<open>The legacy message service\<close>

text \<open>
  The chat of the legacy services, with the fields the message service uses: \<open>read\<close> is an
  object keyed by contact id.
\<close>

record LegacyChat =
  chatId_l :: string
  messages_l :: "message list"
  read_l :: "string \<rightharpoonup> body"

record legacy =
  chats :: "LegacyChat list"
  socketEvents :: "(string \<times> message) list"

text \<open>
  Modelled from the spec: \<open>getChat\<close> and \<open>persistChat\<close> of the legacy data service are
  not among the source files; section 6 gives the keyed store, \<open>find(entityType,
  predicate) -> entity|none\<close> and \<open>save(entity) -> id\<close>. A chat is found by its chat id
  (\<open>NotFound\<close> when there is none) and saved under it.
\<close>

definition legacy_getChat :: "legacy \<Rightarrow> string \<Rightarrow> LegacyChat option" where
  "legacy_getChat st cid = find (\<lambda>c. chatId_l c = cid) (chats st)"

fun replaceChat :: "LegacyChat list \<Rightarrow> LegacyChat \<Rightarrow> LegacyChat list" where
  "replaceChat [] chat = [chat]"
| "replaceChat (c # cs) chat = (if chatId_l c = chatId_l chat then chat # cs else c # replaceChat cs chat)"

definition persistChat :: "legacy \<Rightarrow> LegacyChat \<Rightarrow> legacy" where
  "persistChat st chat = st\<lparr>chats := replaceChat (chats st) chat\<rparr>"

text \<open>\<open>msg.body.name\<close>: the name of an uploaded file, undefined for every other body.\<close>

fun uploadName :: "body \<Rightarrow> string option" where
  "uploadName (FileUploadBody n d) = Some n"
| "uploadName _ = None"

text \<open>
  \<open>parseMessage\<close>, lines 21-190. Every arm of the switch builds the message from the
  same fields with the replies parsed, and the casts change nothing; the \<open>FILE_UPLOAD\<close>
  arm alone stores the file (in the file store, which is no part of the chat), keeps the
  file's name as the body and turns the type into \<open>FILE\<close>.
\<close>

fun parseMessage :: "message \<Rightarrow> message" where
  "parseMessage (Message f t b ts i ty rs sj sg u) =
     (case ty of
        FILE_UPLOAD \<Rightarrow> Message f t (FileBody (uploadName b)) ts i FILE (map parseMessage rs) sj sg u
      | _ \<Rightarrow> Message f t b ts i ty (map parseMessage rs) sj sg u)"

text \<open>
  \<open>editReply\<close>, lines 191-206; \<open>now\<close> is the clock reading of \<open>new Date()\<close>.
\<close>

definition editReply :: "legacy \<Rightarrow> string \<Rightarrow> message \<Rightarrow> int \<Rightarrow> error + legacy" where
  "editReply st cid newMessage now =
     (case legacy_getChat st cid of
        None \<Rightarrow> Inl NotFound
      | Some chat \<Rightarrow>
          let messageIndex = findIndex (\<lambda>mes. Some (msg_id mes) = subject newMessage) (messages_l chat) in
          if messageIndex = - 1 then Inr st
          else
            (let target = messages_l chat ! nat messageIndex;
                 replyIndex = findIndex (\<lambda>r. msg_id r = msg_id newMessage) (replies target)
             in
             if replyIndex = - 1 then Inr st
             else
               (let reply = set_updated (set_body (replies target ! nat replyIndex) (body newMessage))
                              (Some now);
                    target' = set_replies target ((replies target)[nat replyIndex := reply])
                in Inr (persistChat st
                          (chat\<lparr>messages_l := (messages_l chat)[nat messageIndex := target']\<rparr>)))))"

text \<open>
  \<open>editMessage\<close>, lines 208-235. Without a subject the target is a message of the log.
  In the \<open>DELETE\<close> arm \<open>chat.messages[index]\<close> is \<open>undefined\<close> when no message has the
  id (\<open>index\<close> is \<open>-1\<close>), and setting its \<open>body\<close> raises a \<open>TypeError\<close>. In the \<open>EDIT\<close>
  arm the body is parsed as a message; a body that is no message has no id, so no message
  of the log matches it.
\<close>

definition editMessage :: "legacy \<Rightarrow> string \<Rightarrow> message \<Rightarrow> int \<Rightarrow> error + legacy" where
  "editMessage st cid newMessage now =
     (if truthy (subject newMessage) then editReply st cid newMessage now
      else
        (case legacy_getChat st cid of
           None \<Rightarrow> Inl NotFound
         | Some chat \<Rightarrow>
             (case msg_type newMessage of
                DELETE \<Rightarrow>
                  (let index = findIndex (\<lambda>mes. msg_id mes = msg_id newMessage) (messages_l chat) in
                   if index = - 1 then Inl TypeError
                   else
                     Inr (persistChat st
                       (chat\<lparr>messages_l := (messages_l chat)
                          [nat index := set_type (set_body (messages_l chat ! nat index) (body newMessage))
                                          DELETE]\<rparr>)))
              | EDIT \<Rightarrow>
                  (case body newMessage of
                     MessageBody raw \<Rightarrow>
                       (let editedMessage = parseMessage raw;
                            index = findIndex (\<lambda>mes. msg_id mes = msg_id editedMessage) (messages_l chat)
                        in Inr (persistChat st
                             (chat\<lparr>messages_l := assignIndex (messages_l chat) index editedMessage\<rparr>)))
                   | _ \<Rightarrow> Inr (persistChat st chat))
              | _ \<Rightarrow> Inr (persistChat st chat))))"

text \<open>
  \<open>handleRead\<close>, lines 284-300; \<open>determineChatId\<close> (of the message routes) is a
  parameter.
\<close>

definition handleRead :: "(message \<Rightarrow> string) \<Rightarrow> legacy \<Rightarrow> message \<Rightarrow> error + legacy" where
  "handleRead determineChatId st message =
     (case legacy_getChat st (determineChatId message) of
        None \<Rightarrow> Inl NotFound
      | Some chat \<Rightarrow>
          let newRead = find (\<lambda>m. StringBody (msg_id m) = body message) (messages_l chat);
              oldRead = (case read_l chat (msg_from message) of
                           None \<Rightarrow> None
                         | Some b \<Rightarrow> find (\<lambda>m. StringBody (msg_id m) = b) (messages_l chat))
          in
          if oldRead \<noteq> None \<and> newRead \<noteq> None \<and> earlier (timeStamp (the newRead)) (timeStamp (the oldRead))
          then Inr st
          else Inr ((persistChat st (chat\<lparr>read_l := (read_l chat)(msg_from message \<mapsto> body message)\<rparr>))
                      \<lparr>socketEvents := socketEvents st @ [(''message'', message)]\<rparr>))"

text \<open>
  To speak about read receipts: the read cursor a store holds for a sender in a chat, the
  message a cursor names (the first message of the chat with that id), and a run of
  \<open>handleRead\<close> over a list of receipts, stopping at the first exception.
\<close>

definition readCursor :: "legacy \<Rightarrow> string \<Rightarrow> string \<Rightarrow> body option" where
  "readCursor st cid sender =
     (case legacy_getChat st cid of None \<Rightarrow> None | Some chat \<Rightarrow> read_l chat sender)"

definition readTarget :: "LegacyChat \<Rightarrow> body option \<Rightarrow> message option" where
  "readTarget chat b =
     (case b of None \<Rightarrow> None | Some b' \<Rightarrow> find (\<lambda>m. StringBody (msg_id m) = b') (messages_l chat))"

fun handleReads :: "(message \<Rightarrow> string) \<Rightarrow> legacy \<Rightarrow> message list \<Rightarrow> error + legacy" where
  "handleReads d st [] = Inr st"
| "handleReads d st (r # rs) =
     (case handleRead d st r of Inl e \<Rightarrow> Inl e | Inr st' \<Rightarrow> handleReads d st' rs)"

text \<open>
  To compare stores up to the time stamps of edits: a message with the \<open>updated\<close> stamps
  of its replies erased, and a store with them erased in every chat.
\<close>

definition unstamped :: "message \<Rightarrow> message" where
  "unstamped m = set_replies m (map (\<lambda>r. set_updated r None) (replies m))"

definition withoutStamps :: "legacy \<Rightarrow> legacy" where
  "withoutStamps st =
     st\<lparr>chats := map (\<lambda>c. c\<lparr>messages_l := map unstamped (messages_l c)\<rparr>) (chats st)\<rparr>"

section \<open>A sample node\<close>

text \<open>
  Concrete data for the cases worked below. The node is \<open>m0\<close>; its collaborators
  are simple stand-ins: a signature is the key followed by the id of the signed message,
  every location but \<open>loc2\<close> can be reached, the chat of a message is named by its
  addressee (by its sender when it is addressed to the node), and the two message state
  handlers emit an event and change nothing else.
\<close>

definition sampleEnv :: env where
  "sampleEnv =
     \<lparr>configUserId = ''m0'',
      createBase64Signature = (\<lambda>m k. k @ msg_id m),
      verifySignature = (\<lambda>m s k. s = k @ msg_id m),
      getContactPublicKey = (\<lambda>l. None),
      delivers = (\<lambda>l. l \<noteq> ''loc2''),
      determineChatID = (\<lambda>m. if msg_to m = ''m0'' then msg_from m else msg_to m),
      verifySignedMessage = (\<lambda>c m. True),
      contactRequestHandle = (\<lambda>m c w. (Inr (), w\<lparr>emitted := emitted w @ [(''contact_request'', m)]\<rparr>)),
      systemHandle = (\<lambda>m c w. (Inr (), w\<lparr>emitted := emitted w @ [(''system'', m)]\<rparr>))\<rparr>"

definition msgA :: message where
  "msgA = Message ''m1'' ''g1'' (StringBody ''first'') (Some 10) ''a'' STRING [] None [] None"

definition msgB :: message where
  "msgB = Message ''m2'' ''g1'' (StringBody ''second'') (Some 20) ''b'' STRING [] None [] None"

definition msgC :: message where
  "msgC = Message ''m1'' ''g1'' (StringBody ''third'') (Some 30) ''c'' STRING [] None [] None"

definition groupChat :: Chat where
  "groupChat =
     \<lparr>entityId = ''e1'', chatId = ''g1'', name = ''group'',
      contacts = [\<lparr>contact_id = ''m0'', location = ''loc0''\<rparr>,
                  \<lparr>contact_id = ''m1'', location = ''loc1''\<rparr>,
                  \<lparr>contact_id = ''m2'', location = ''loc2''\<rparr>],
      messages = [msgA, msgB, msgC], acceptedChat = True, adminId = ''m0'', read = [],
      isGroup = True, draft = []\<rparr>"

definition directChat :: Chat where
  "directChat =
     \<lparr>entityId = ''e2'', chatId = ''m1'', name = ''m1'',
      contacts = [\<lparr>contact_id = ''m0'', location = ''loc0''\<rparr>,
                  \<lparr>contact_id = ''m1'', location = ''loc1''\<rparr>],
      messages = [], acceptedChat = True, adminId = ''m1'', read = [],
      isGroup = False, draft = []\<rparr>"

text \<open>The chat of the node and \<open>m1\<close> under the id the gateway looks up.\<close>

definition socketChat :: Chat where
  "socketChat = directChat\<lparr>chatId := ''m0-m1''\<rparr>"

definition privateKey :: Key where
  "privateKey = \<lparr>userId = Some ''m0'', key = Some ''sk'', keyType = Private\<rparr>"

definition sampleWorld :: world where
  "sampleWorld =
     \<lparr>chatRepo = [groupChat, directChat], keyRepo = [privateKey], blockedRepo = [], sentToApi = [],
      emitted = []\<rparr>"

text \<open>A chat of the legacy store: the message \<open>a\<close> has one reply, \<open>r\<close>.\<close>

definition replyR :: message where
  "replyR = Message ''m2'' ''c1'' (StringBody ''answer'') (Some 15) ''r'' STRING [] (Some ''a'') [] None"

definition threadA :: message where
  "threadA = Message ''m1'' ''c1'' (StringBody ''first'') (Some 10) ''a'' STRING [replyR] None [] None"

definition sampleLegacy :: legacy where
  "sampleLegacy =
     \<lparr>chats = [\<lparr>chatId_l = ''c1'', messages_l = [threadA, msgB], read_l = Map.empty\<rparr>],
      socketEvents = []\<rparr>"

text \<open>An edit of the reply \<open>r\<close>, the store after that edit was applied at the time \<open>t\<close>,
  and an edit of the message \<open>b\<close> of the log.\<close>

definition editR :: message where
  "editR = Message ''m2'' ''c1'' (StringBody ''edited'') (Some 50) ''r'' EDIT [] (Some ''a'') [] None"

definition editedAt :: "int \<Rightarrow> legacy" where
  "editedAt t =
     \<lparr>chats = [\<lparr>chatId_l = ''c1'',
                 messages_l =
                   [Message ''m1'' ''c1'' (StringBody ''first'') (Some 10) ''a'' STRING
                      [Message ''m2'' ''c1'' (StringBody ''edited'') (Some 15) ''r'' STRING [] (Some ''a'') []
                         (Some t)]
                      None [] None,
                    msgB],
                 read_l = Map.empty\<rparr>],
      socketEvents = []\<rparr>"

definition editTop :: message where
  "editTop = Message ''m2'' ''c1''
     (MessageBody (Message ''m2'' ''g1'' (StringBody ''second, edited'') (Some 20) ''b'' STRING [] None [] None))
     (Some 51) ''e'' EDIT [] None [] None"

section \<open>The signature chain\<close>

lemma signatures_set_signatures [simp]: "signatures (set_signatures m sg) = sg"
  by (cases m) simp

lemma set_signatures_fields [simp]:
  "msg_from (set_signatures m sg) = msg_from m"
  "msg_to (set_signatures m sg) = msg_to m"
  "msg_type (set_signatures m sg) = msg_type m"
  by (cases m; simp)+

lemma set_signatures_same [simp]: "set_signatures (set_signatures m sg) (signatures m) = m"
  by (cases m) simp

lemma slice_tail2: "slice (a # b # xs) 2 (int (length (a # b # xs))) = xs"
  by (simp add: slice_def Let_def)

text \<open>
  An older signature is checked as the chain intends: with the signer's key cached, the
  signature at index 1 is verified against the message as it was when that signature was
  made, that is with the signatures after it.
\<close>

lemma verify_older_signature:
  assumes "getPublicKeyByUserID w (contact_id contact) = Some k" and "key k = Some pk" and "pk \<noteq> []"
    and "s2 \<noteq> s1"
  shows "verifyMessageSignature E w contact (set_signatures m (s2 # s1 # signatures m)) s1
         = (Inr (verifySignature E m s1 pk), w)"
  using assms
  by (simp add: verifyMessageSignature_def Let_def slice_tail2 del: length_Cons list.size)

text \<open>
  C1. A message signed by \<open>appendSignatureToMessage\<close> carries the new signature at index
  0, and the specification promises that verifying index 0 (the most recent signer)
  succeeds with the signer's public key. The code answers \<open>false\<close> for the signature at
  index 0 of every message, whatever the keys and the cryptographic functions are: the
  early return \<open>if (!signatureIdx) return false;\<close> fires on index 0.
\<close>

theorem verify_newest_signature_fails:
  "fst (verifyMessageSignature E w contact
          (set_signatures m (createBase64Signature E m k # signatures m))
          (createBase64Signature E m k)) = Inr False"
  by (simp add: verifyMessageSignature_def)

section \<open>Signing without key material\<close>

text \<open>
  C6, as the claim states it, fails: with a private-key entity that holds no key
  material the signing answers \<open>undefined\<close> and raises nothing.
\<close>

theorem sign_without_key_material_returns_nothing:
  "appendSignatureToMessage sampleEnv
     (sampleWorld\<lparr>keyRepo := [\<lparr>userId = Some ''m0'', key = None, keyType = Private\<rparr>]\<rparr>) msgA
   = Inr None"
  by (simp add: appendSignatureToMessage_def getKey_def sampleEnv_def sampleWorld_def)

text \<open>
  C6, amended. Signing without a usable private key never raises a dedicated error: when
  the private-key entity holds no key material \<open>appendSignatureToMessage\<close> answers
  \<open>undefined\<close> (the message stays unsigned), and when no private-key entity is found the
  destructuring of the \<open>null\<close> lookup result raises a \<open>TypeError\<close>. A message comes back
  exactly when key material exists, and it is the message with one signature, made with
  that key over the message as it was, in front of its signatures.
\<close>

theorem append_signature_by_key:
  "(getKey E w Private = None \<longrightarrow> appendSignatureToMessage E w m = Inl TypeError) \<and>
   (\<forall>k. getKey E w Private = Some k \<and> \<not> truthy (key k) \<longrightarrow>
      appendSignatureToMessage E w m = Inr None) \<and>
   (\<forall>m'. appendSignatureToMessage E w m = Inr (Some m') \<longrightarrow>
      (\<exists>k s. getKey E w Private = Some k \<and> key k = Some s \<and> s \<noteq> [] \<and>
         m' = set_signatures m (createBase64Signature E m s # signatures m)))"
proof (cases "getKey E w Private")
  case None
  then show ?thesis by (simp add: appendSignatureToMessage_def)
next
  case (Some k)
  show ?thesis
  proof (cases "key k")
    case None
    with Some show ?thesis by (simp add: appendSignatureToMessage_def)
  next
    case (Some s)
    with \<open>getKey E w Private = Some k\<close> show ?thesis
      by (auto simp add: appendSignatureToMessage_def)
  qed
qed

theorem append_signature_by_key_witness:
  "appendSignatureToMessage sampleEnv (sampleWorld\<lparr>keyRepo := []\<rparr>) msgA = Inl TypeError \<and>
   appendSignatureToMessage sampleEnv
     (sampleWorld\<lparr>keyRepo := [\<lparr>userId = Some ''m0'', key = Some [], keyType = Private\<rparr>]\<rparr>) msgA
     = Inr None \<and>
   appendSignatureToMessage sampleEnv sampleWorld msgA
     = Inr (Some (set_signatures msgA [''ska''])) \<and>
   (\<exists>k s. getKey sampleEnv sampleWorld Private = Some k \<and> key k = Some s \<and> s \<noteq> [] \<and>
      set_signatures msgA [''ska'']
        = set_signatures msgA (createBase64Signature sampleEnv msgA s # signatures msgA))"
proof -
  have none: "getKey sampleEnv (sampleWorld\<lparr>keyRepo := []\<rparr>) Private = None"
    by (simp add: getKey_def)
  have empty: "getKey sampleEnv
      (sampleWorld\<lparr>keyRepo := [\<lparr>userId = Some ''m0'', key = Some [], keyType = Private\<rparr>]\<rparr>) Private
      = Some \<lparr>userId = Some ''m0'', key = Some [], keyType = Private\<rparr>"
    by (simp add: getKey_def sampleEnv_def)
  have some: "getKey sampleEnv sampleWorld Private = Some privateKey"
    by (simp add: getKey_def sampleEnv_def sampleWorld_def privateKey_def)
  have signed: "appendSignatureToMessage sampleEnv sampleWorld msgA
      = Inr (Some (set_signatures msgA [''ska'']))"
    unfolding appendSignatureToMessage_def some
    by (simp add: privateKey_def sampleEnv_def msgA_def)
  from append_signature_by_key [of sampleEnv "sampleWorld\<lparr>keyRepo := []\<rparr>" msgA] none
  have a: "appendSignatureToMessage sampleEnv (sampleWorld\<lparr>keyRepo := []\<rparr>) msgA = Inl TypeError"
    by blast
  from append_signature_by_key [of sampleEnv
      "sampleWorld\<lparr>keyRepo := [\<lparr>userId = Some ''m0'', key = Some [], keyType = Private\<rparr>]\<rparr>" msgA] empty
  have b: "appendSignatureToMessage sampleEnv
      (sampleWorld\<lparr>keyRepo := [\<lparr>userId = Some ''m0'', key = Some [], keyType = Private\<rparr>]\<rparr>) msgA
      = Inr None"
    by simp
  from append_signature_by_key [of sampleEnv sampleWorld msgA] signed
  have c: "\<exists>k s. getKey sampleEnv sampleWorld Private = Some k \<and> key k = Some s \<and> s \<noteq> [] \<and>
      set_signatures msgA [''ska'']
        = set_signatures msgA (createBase64Signature sampleEnv msgA s # signatures msgA)"
    by blast
  from a b signed c show ?thesis by blast
qed

section \<open>The admission gate of the message controller\<close>

lemma find_contact_id:
  "(find (\<lambda>c. contact_id c = x) cs \<noteq> None) = (x \<in> contact_id ` set cs)"
  by (induction cs) auto




text \<open>
  C5, as the claim states it, fails: the blocked-contact page is searched before the
  chat is looked up, so a \<open>SYSTEM\<close> message of a sender who is not the admin of its chat
  and who is in the blocked page is rejected with \<open>Blocked\<close>, not with \<open>Unauthorized\<close>.
\<close>

theorem system_from_blocked_sender_gets_blocked:
  "adminId groupChat \<noteq> ''m1'' \<and>
   getChat (sampleWorld\<lparr>blockedRepo := [\<lparr>contact_id = ''m1'', location = ''loc1''\<rparr>]\<rparr>) ''g1''
     = Some groupChat \<and>
   MessageController_handleIncomingMessage sampleEnv
     (sampleWorld\<lparr>blockedRepo := [\<lparr>contact_id = ''m1'', location = ''loc1''\<rparr>]\<rparr>)
     (Message ''m1'' ''g1'' (StringBody ''rename'') (Some 40) ''d'' SYSTEM [] None [] None) 0 25
   = (Inl Blocked, sampleWorld\<lparr>blockedRepo := [\<lparr>contact_id = ''m1'', location = ''loc1''\<rparr>]\<rparr>) \<and>
   Blocked \<noteq> Unauthorized"
  by (simp add: MessageController_handleIncomingMessage_def admitIncomingMessage_def
      getBlockedContactList_def getChat_def sampleWorld_def groupChat_def)

text \<open>
  C5, amended. For an inbound \<open>SYSTEM\<close> message whose sender is not in the blocked-contact
  page of the request and whose chat exists, a sender other than the chat's admin is
  rejected with \<open>Unauthorized\<close>, and the node's state, the chat with it, is as it was.
  A sender in the blocked page is rejected before that with \<open>Blocked\<close>, and a message
  whose chat does not exist ends in a \<open>TypeError\<close>, both with the state as it was. A
  \<open>SYSTEM\<close> message that the controller admits to dispatch comes from the admin of the
  chat it is dispatched with.
\<close>

theorem system_message_needs_admin:
  assumes "msg_type m = SYSTEM"
  shows "(msg_from m \<in> contact_id ` set (getBlockedContactList w offset count) \<longrightarrow>
            MessageController_handleIncomingMessage E w m offset count = (Inl Blocked, w)) \<and>
         (msg_from m \<notin> contact_id ` set (getBlockedContactList w offset count) \<and>
            getChat w (determineChatID E m) = None \<longrightarrow>
            MessageController_handleIncomingMessage E w m offset count = (Inl TypeError, w)) \<and>
         (\<forall>chat. msg_from m \<notin> contact_id ` set (getBlockedContactList w offset count) \<and>
            getChat w (determineChatID E m) = Some chat \<and> adminId chat \<noteq> msg_from m \<longrightarrow>
            MessageController_handleIncomingMessage E w m offset count = (Inl Unauthorized, w)) \<and>
         (\<forall>m' chat w'. admitIncomingMessage E w m offset count = (Inr (m', chat), w') \<longrightarrow>
            getChat w (determineChatID E m) = Some chat \<and> adminId chat = msg_from m)"
proof -
  let ?page = "getBlockedContactList w offset count"
  have blocked: "MessageController_handleIncomingMessage E w m offset count = (Inl Blocked, w)"
    if "msg_from m \<in> contact_id ` set ?page"
  proof -
    from that have "find (\<lambda>c. contact_id c = msg_from m) ?page \<noteq> None"
      by (simp only: find_contact_id)
    then show ?thesis
      by (simp add: MessageController_handleIncomingMessage_def admitIncomingMessage_def)
  qed
  have passed: "find (\<lambda>c. contact_id c = msg_from m) ?page = None"
    if "msg_from m \<notin> contact_id ` set ?page"
    using that find_contact_id [of "msg_from m" ?page] by blast
  have nochat: "MessageController_handleIncomingMessage E w m offset count = (Inl TypeError, w)"
    if "msg_from m \<notin> contact_id ` set ?page \<and> getChat w (determineChatID E m) = None"
    using that passed
    by (simp add: MessageController_handleIncomingMessage_def admitIncomingMessage_def)
  have nonadmin: "MessageController_handleIncomingMessage E w m offset count = (Inl Unauthorized, w)"
    if "msg_from m \<notin> contact_id ` set ?page \<and>
        getChat w (determineChatID E m) = Some chat \<and> adminId chat \<noteq> msg_from m" for chat
    using that passed assms
    by (simp add: MessageController_handleIncomingMessage_def admitIncomingMessage_def)
  have admitted: "getChat w (determineChatID E m) = Some chat \<and> adminId chat = msg_from m"
    if "admitIncomingMessage E w m offset count = (Inr (m', chat), w')" for m' chat w'
    using that assms
    by (auto simp add: admitIncomingMessage_def Let_def
        split: if_splits option.splits prod.splits sum.splits)
  from blocked nochat nonadmin admitted show ?thesis by blast
qed

theorem system_message_needs_admin_witness:
  "MessageController_handleIncomingMessage sampleEnv
     (sampleWorld\<lparr>blockedRepo := [\<lparr>contact_id = ''m1'', location = ''loc1''\<rparr>]\<rparr>)
     (Message ''m1'' ''g1'' (StringBody ''rename'') (Some 40) ''d'' SYSTEM [] None [] None) 0 25
     = (Inl Blocked, sampleWorld\<lparr>blockedRepo := [\<lparr>contact_id = ''m1'', location = ''loc1''\<rparr>]\<rparr>) \<and>
   MessageController_handleIncomingMessage sampleEnv sampleWorld
     (Message ''m1'' ''g7'' (StringBody ''rename'') (Some 40) ''d'' SYSTEM [] None [] None) 0 25
     = (Inl TypeError, sampleWorld) \<and>
   MessageController_handleIncomingMessage sampleEnv sampleWorld
     (Message ''m1'' ''g1'' (StringBody ''rename'') (Some 40) ''d'' SYSTEM [] None [] None) 0 25
     = (Inl Unauthorized, sampleWorld) \<and>
   admitIncomingMessage sampleEnv sampleWorld
     (Message ''m1'' ''m0'' (StringBody ''rename'') (Some 40) ''d'' SYSTEM [] None [] None) 0 25
     = (Inr (Message ''m1'' ''m0'' (StringBody ''rename'') (Some 40) ''d'' SYSTEM [] None [] None, directChat),
        sampleWorld) \<and>
   adminId directChat = ''m1''"
proof -
  let ?n = "Message ''m1'' ''g1'' (StringBody ''rename'') (Some 40) ''d'' SYSTEM [] None [] None"
  let ?u = "Message ''m1'' ''g7'' (StringBody ''rename'') (Some 40) ''d'' SYSTEM [] None [] None"
  let ?a = "Message ''m1'' ''m0'' (StringBody ''rename'') (Some 40) ''d'' SYSTEM [] None [] None"
  let ?wb = "sampleWorld\<lparr>blockedRepo := [\<lparr>contact_id = ''m1'', location = ''loc1''\<rparr>]\<rparr>"
  have tn: "msg_type ?n = SYSTEM" and tu: "msg_type ?u = SYSTEM" and ta: "msg_type ?a = SYSTEM"
    by simp_all
  have inpage: "msg_from ?n \<in> contact_id ` set (getBlockedContactList ?wb 0 25)"
    by (simp add: getBlockedContactList_def)
  from system_message_needs_admin [OF tn, of ?wb 0 25 sampleEnv] inpage
  have blocked: "MessageController_handleIncomingMessage sampleEnv ?wb ?n 0 25 = (Inl Blocked, ?wb)"
    by blast
  have unknown: "msg_from ?u \<notin> contact_id ` set (getBlockedContactList sampleWorld 0 25) \<and>
      getChat sampleWorld (determineChatID sampleEnv ?u) = None"
    by (simp add: getBlockedContactList_def getChat_def sampleEnv_def sampleWorld_def
        groupChat_def directChat_def)
  from system_message_needs_admin [OF tu, of sampleWorld 0 25 sampleEnv] unknown
  have nochat: "MessageController_handleIncomingMessage sampleEnv sampleWorld ?u 0 25
      = (Inl TypeError, sampleWorld)"
    by blast
  have pre: "msg_from ?n \<notin> contact_id ` set (getBlockedContactList sampleWorld 0 25) \<and>
      getChat sampleWorld (determineChatID sampleEnv ?n) = Some groupChat \<and>
      adminId groupChat \<noteq> msg_from ?n"
    by (simp add: getBlockedContactList_def getChat_def sampleEnv_def sampleWorld_def
        groupChat_def)
  from system_message_needs_admin [OF tn, of sampleWorld 0 25 sampleEnv] pre
  have rejected: "MessageController_handleIncomingMessage sampleEnv sampleWorld ?n 0 25
      = (Inl Unauthorized, sampleWorld)"
    by blast
  have admitted: "admitIncomingMessage sampleEnv sampleWorld ?a 0 25
      = (Inr (?a, directChat), sampleWorld)"
    by (simp add: admitIncomingMessage_def getBlockedContactList_def getChat_def sampleEnv_def
        sampleWorld_def groupChat_def directChat_def)
  from system_message_needs_admin [OF ta, of sampleWorld 0 25 sampleEnv] admitted
  have "adminId directChat = msg_from ?a"
    by blast
  with blocked nochat rejected admitted show ?thesis by simp
qed

section \<open>Forwarding by the admin of a group\<close>

lemma filter_empty_all: "(filter (\<lambda>c. \<not> P c) cs = []) = (\<forall>c\<in>set cs. P c)"
  by (induction cs) auto

lemma appendSignatureToMessage_type:
  "appendSignatureToMessage E w m = Inr (Some sm) \<Longrightarrow> msg_type sm = msg_type m"
  by (auto simp add: appendSignatureToMessage_def split: option.splits if_splits)

text \<open>What \<open>handleGroupAdmin\<close> does once the sender's signature is verified: it signs, hands
  what the signing answered to one send per contact other than the local user, and ends
  in an exception when one of the sends fails.\<close>

lemma handleGroupAdmin_verified:
  assumes "verifySignedMessage E (find (\<lambda>c. contact_id c = msg_from m) (contacts chat)) m"
  shows "handleGroupAdmin E w chat m =
     (case appendSignatureToMessage E w m of
        Inl e \<Rightarrow> (Inl e, w)
      | Inr signedMessage \<Rightarrow>
          (if \<forall>c\<in>set (filter (\<lambda>c. contact_id c \<noteq> configUserId E) (contacts chat)).
                delivers E (location c)
           then Inr (case signedMessage of None \<Rightarrow> m | Some sm \<Rightarrow> sm) else Inl TransportError,
           w\<lparr>sentToApi := sentToApi w @
               map (\<lambda>c. (location c, signedMessage))
                 (filter (\<lambda>c. contact_id c \<noteq> configUserId E) (contacts chat))\<rparr>))"
  using assms by (auto simp add: handleGroupAdmin_def Let_def filter_empty_all split: sum.splits)

text \<open>
  C3, amended. When the local node is the admin of a group chat and an inbound message
  has passed admission (its sender is not in the blocked page, the chat exists, and a
  \<open>SYSTEM\<close> message comes from the admin) and the sender's signature is verified, the
  node signs the message: without a private-key entity the handling ends there in a
  \<open>TypeError\<close> and nothing is sent. Otherwise what the signing answered, the
  node-signed message, or \<open>undefined\<close> when the key entity holds no key material, is handed
  to \<open>sendMessageToApi\<close> once for every contact of the chat other than the local user,
  and nothing else of the node's state changes before the dispatch. When a delivery
  fails the failure is not isolated: the inbound handler ends with that exception, no
  handler runs, and the chat repository is as it was. When every delivery succeeds the
  message (signed, or as it came when the signing answered \<open>undefined\<close>) is dispatched
  to the handler of its type; only \<open>CONTACT_REQUEST\<close> and \<open>SYSTEM\<close> have one, and a
  message of any other type, a plain message too, ends in a \<open>TypeError\<close> after the
  forwards.
\<close>

theorem group_admin_forwarding:
  assumes "msg_from m \<notin> contact_id ` set (getBlockedContactList w offset count)"
    and "getChat w (determineChatID E m) = Some chat"
    and "isGroup chat" and "adminId chat = configUserId E"
    and "msg_type m \<noteq> SYSTEM \<or> adminId chat = msg_from m"
    and "verifySignedMessage E (find (\<lambda>c. contact_id c = msg_from m) (contacts chat)) m"
  shows "MessageController_handleIncomingMessage E w m offset count =
     (case appendSignatureToMessage E w m of
        Inl e \<Rightarrow> (Inl e, w)
      | Inr signedMessage \<Rightarrow>
          let receivingContacts = filter (\<lambda>c. contact_id c \<noteq> configUserId E) (contacts chat);
              w' = w\<lparr>sentToApi := sentToApi w @ map (\<lambda>c. (location c, signedMessage)) receivingContacts\<rparr>;
              message = (case signedMessage of None \<Rightarrow> m | Some sm \<Rightarrow> sm)
          in if \<forall>c\<in>set receivingContacts. delivers E (location c)
             then (if msg_type m = CONTACT_REQUEST then contactRequestHandle E message chat w'
                   else if msg_type m = SYSTEM then systemHandle E message chat w'
                   else (Inl TypeError, w'))
             else (Inl TransportError, w'))"
proof -
  from assms(1)
  have nb: "find (\<lambda>c. contact_id c = msg_from m) (getBlockedContactList w offset count) = None"
    using find_contact_id [of "msg_from m" "getBlockedContactList w offset count"] by blast
  have adm: "admitIncomingMessage E w m offset count =
      (case handleGroupAdmin E w chat m of
         (Inl e, w') \<Rightarrow> (Inl e, w')
       | (Inr message', w') \<Rightarrow> (Inr (message', chat), w'))"
    using nb assms(2-5) by (auto simp add: admitIncomingMessage_def)
  show ?thesis
  proof (cases "appendSignatureToMessage E w m")
    case (Inl e)
    then show ?thesis
      unfolding MessageController_handleIncomingMessage_def adm handleGroupAdmin_verified [OF assms(6)]
      by simp
  next
    case (Inr signedMessage)
    have ty: "msg_type (case signedMessage of None \<Rightarrow> m | Some sm \<Rightarrow> sm) = msg_type m"
      using Inr appendSignatureToMessage_type [of E w m] by (cases signedMessage) auto
    show ?thesis
      unfolding MessageController_handleIncomingMessage_def adm handleGroupAdmin_verified [OF assms(6)]
        Inr
      by (auto simp add: Let_def messageStateHandlers_def ty)
  qed
qed

text \<open>
  C3, as the claim states it, fails. The node \<open>m0\<close> is the admin of the group \<open>g1\<close> with
  the contacts \<open>m0\<close>, \<open>m1\<close> and \<open>m2\<close>; \<open>m1\<close> sends a plain message; the delivery to
  \<open>m2\<close> (at \<open>loc2\<close>) fails. Both forwards are attempted, and the failure leaves the
  inbound handler as an exception before any message handler runs: the chat repository is
  as it was, and the message is not among the messages of the chat.
\<close>

theorem failed_forward_aborts_handling:
  "MessageController_handleIncomingMessage sampleEnv sampleWorld
     (Message ''m1'' ''g1'' (StringBody ''fourth'') (Some 40) ''d'' STRING [] None [] None) 0 25
   = (Inl TransportError,
      sampleWorld\<lparr>sentToApi :=
        [(''loc1'', Some (Message ''m1'' ''g1'' (StringBody ''fourth'') (Some 40) ''d'' STRING [] None [''skd''] None)),
         (''loc2'', Some (Message ''m1'' ''g1'' (StringBody ''fourth'') (Some 40) ''d'' STRING [] None [''skd''] None))]\<rparr>)"
  by (simp add: MessageController_handleIncomingMessage_def admitIncomingMessage_def
      handleGroupAdmin_def appendSignatureToMessage_def getKey_def privateKey_def
      getBlockedContactList_def getChat_def messageStateHandlers_def sampleEnv_def
      sampleWorld_def groupChat_def directChat_def)

theorem group_admin_forwarding_witness:
  "MessageController_handleIncomingMessage sampleEnv sampleWorld
     (Message ''m1'' ''g1'' (StringBody ''fourth'') (Some 40) ''d'' CONTACT_REQUEST [] None [] None) 0 25
   = (Inl TransportError,
      sampleWorld\<lparr>sentToApi :=
        [(''loc1'', Some (Message ''m1'' ''g1'' (StringBody ''fourth'') (Some 40) ''d'' CONTACT_REQUEST [] None [''skd''] None)),
         (''loc2'', Some (Message ''m1'' ''g1'' (StringBody ''fourth'') (Some 40) ''d'' CONTACT_REQUEST [] None [''skd''] None))]\<rparr>) \<and>
   MessageController_handleIncomingMessage (sampleEnv\<lparr>delivers := \<lambda>l. True\<rparr>) sampleWorld
     (Message ''m1'' ''g1'' (StringBody ''fourth'') (Some 40) ''d'' CONTACT_REQUEST [] None [] None) 0 25
   = (Inr (),
      sampleWorld\<lparr>sentToApi :=
        [(''loc1'', Some (Message ''m1'' ''g1'' (StringBody ''fourth'') (Some 40) ''d'' CONTACT_REQUEST [] None [''skd''] None)),
         (''loc2'', Some (Message ''m1'' ''g1'' (StringBody ''fourth'') (Some 40) ''d'' CONTACT_REQUEST [] None [''skd''] None))],
        emitted := [(''contact_request'',
          Message ''m1'' ''g1'' (StringBody ''fourth'') (Some 40) ''d'' CONTACT_REQUEST [] None [''skd''] None)]\<rparr>) \<and>
   MessageController_handleIncomingMessage (sampleEnv\<lparr>delivers := \<lambda>l. True\<rparr>) sampleWorld
     (Message ''m1'' ''g1'' (StringBody ''fourth'') (Some 40) ''d'' STRING [] None [] None) 0 25
   = (Inl TypeError,
      sampleWorld\<lparr>sentToApi :=
        [(''loc1'', Some (Message ''m1'' ''g1'' (StringBody ''fourth'') (Some 40) ''d'' STRING [] None [''skd''] None)),
         (''loc2'', Some (Message ''m1'' ''g1'' (StringBody ''fourth'') (Some 40) ''d'' STRING [] None [''skd''] None))]\<rparr>) \<and>
   MessageController_handleIncomingMessage (sampleEnv\<lparr>delivers := \<lambda>l. True\<rparr>)
     (sampleWorld\<lparr>keyRepo := [\<lparr>userId = Some ''m0'', key = None, keyType = Private\<rparr>]\<rparr>)
     (Message ''m1'' ''g1'' (StringBody ''fourth'') (Some 40) ''d'' CONTACT_REQUEST [] None [] None) 0 25
   = (Inr (),
      sampleWorld\<lparr>keyRepo := [\<lparr>userId = Some ''m0'', key = None, keyType = Private\<rparr>],
        sentToApi := [(''loc1'', None), (''loc2'', None)],
        emitted := [(''contact_request'',
          Message ''m1'' ''g1'' (StringBody ''fourth'') (Some 40) ''d'' CONTACT_REQUEST [] None [] None)]\<rparr>)"
proof -
  let ?m = "Message ''m1'' ''g1'' (StringBody ''fourth'') (Some 40) ''d'' CONTACT_REQUEST [] None [] None"
  let ?p = "Message ''m1'' ''g1'' (StringBody ''fourth'') (Some 40) ''d'' STRING [] None [] None"
  let ?E = "sampleEnv\<lparr>delivers := \<lambda>l. True\<rparr>"
  let ?wn = "sampleWorld\<lparr>keyRepo := [\<lparr>userId = Some ''m0'', key = None, keyType = Private\<rparr>]\<rparr>"
  have nb: "msg_from ?m \<notin> contact_id ` set (getBlockedContactList sampleWorld 0 25)"
    "msg_from ?p \<notin> contact_id ` set (getBlockedContactList sampleWorld 0 25)"
    "msg_from ?m \<notin> contact_id ` set (getBlockedContactList ?wn 0 25)"
    by (simp_all add: getBlockedContactList_def sampleWorld_def)
  have c: "getChat sampleWorld (determineChatID sampleEnv ?m) = Some groupChat"
    "getChat sampleWorld (determineChatID ?E ?m) = Some groupChat"
    "getChat sampleWorld (determineChatID ?E ?p) = Some groupChat"
    "getChat ?wn (determineChatID ?E ?m) = Some groupChat"
    by (simp_all add: getChat_def sampleEnv_def sampleWorld_def groupChat_def)
  have g: "isGroup groupChat" by (simp add: groupChat_def)
  have a: "adminId groupChat = configUserId sampleEnv" "adminId groupChat = configUserId ?E"
    by (simp_all add: groupChat_def sampleEnv_def)
  have t: "msg_type ?m \<noteq> SYSTEM \<or> adminId groupChat = msg_from ?m"
    "msg_type ?p \<noteq> SYSTEM \<or> adminId groupChat = msg_from ?p"
    by simp_all
  have v: "verifySignedMessage sampleEnv
      (find (\<lambda>c. contact_id c = msg_from ?m) (contacts groupChat)) ?m"
    "verifySignedMessage ?E (find (\<lambda>c. contact_id c = msg_from ?m) (contacts groupChat)) ?m"
    "verifySignedMessage ?E (find (\<lambda>c. contact_id c = msg_from ?p) (contacts groupChat)) ?p"
    by (simp_all add: sampleEnv_def)
  have fails: "MessageController_handleIncomingMessage sampleEnv sampleWorld ?m 0 25
      = (Inl TransportError,
         sampleWorld\<lparr>sentToApi :=
           [(''loc1'', Some (set_signatures ?m [''skd''])),
            (''loc2'', Some (set_signatures ?m [''skd'']))]\<rparr>)"
    unfolding group_admin_forwarding [OF nb(1) c(1) g a(1) t(1) v(1)]
    by (simp add: Let_def appendSignatureToMessage_def getKey_def privateKey_def sampleEnv_def
        sampleWorld_def groupChat_def)
  have succeeds: "MessageController_handleIncomingMessage ?E sampleWorld ?m 0 25
      = (Inr (),
         sampleWorld\<lparr>sentToApi :=
           [(''loc1'', Some (set_signatures ?m [''skd''])),
            (''loc2'', Some (set_signatures ?m [''skd'']))],
           emitted := [(''contact_request'', set_signatures ?m [''skd''])]\<rparr>)"
    unfolding group_admin_forwarding [OF nb(1) c(2) g a(2) t(1) v(2)]
    by (simp add: Let_def appendSignatureToMessage_def getKey_def privateKey_def sampleEnv_def
        sampleWorld_def groupChat_def)
  have plain: "MessageController_handleIncomingMessage ?E sampleWorld ?p 0 25
      = (Inl TypeError,
         sampleWorld\<lparr>sentToApi :=
           [(''loc1'', Some (set_signatures ?p [''skd''])),
            (''loc2'', Some (set_signatures ?p [''skd'']))]\<rparr>)"
    unfolding group_admin_forwarding [OF nb(2) c(3) g a(2) t(2) v(3)]
    by (simp add: Let_def appendSignatureToMessage_def getKey_def privateKey_def sampleEnv_def
        sampleWorld_def groupChat_def)
  have unsigned: "MessageController_handleIncomingMessage ?E ?wn ?m 0 25
      = (Inr (),
         ?wn\<lparr>sentToApi := [(''loc1'', None), (''loc2'', None)],
           emitted := [(''contact_request'', ?m)]\<rparr>)"
    unfolding group_admin_forwarding [OF nb(3) c(4) g a(2) t(1) v(2)]
    by (simp add: Let_def appendSignatureToMessage_def getKey_def sampleEnv_def
        sampleWorld_def groupChat_def)
  from fails succeeds plain unsigned show ?thesis by simp
qed

section \<open>The sender of a socket message\<close>

lemma set_from_set_from [simp]: "set_from (set_from m a) b = set_from m b"
  by (cases m) simp

lemma msg_from_set_from [simp]: "msg_from (set_from m a) = a"
  by (cases m) simp

lemma set_from_fields [simp]:
  "msg_to (set_from m a) = msg_to m"
  "msg_type (set_from m a) = msg_type m"
  "signatures (set_from m a) = signatures m"
  by (cases m; simp)+

lemma emitted_save [simp]: "emitted (save w chat) = emitted w"
  by (simp add: save_def)

lemma emitted_handleMessageRead [simp]: "emitted (snd (handleMessageRead E w m)) = emitted w"
  by (simp add: handleMessageRead_def Let_def split: option.splits)

text \<open>
  C10. Two \<open>message\<close> payloads to the gateway that differ only in their \<open>from\<close> field
  have the same outcome, the same result and the same state of the node: the handler
  overwrites \<open>message.from\<close> with the configured user id before it signs, looks the chat up
  or stores anything. With key material and the chat of the configured user and the
  addressee at hand, the signature is made over the message with the configured user id
  as its sender, the signed message carries that id, it is the one message emitted to the
  connected clients, and it is the message that is appended to the chat and saved (or,
  for a \<open>READ\<close>, the receipt that is handled).
\<close>

theorem socket_sender_not_spoofable:
  "ChatGateway_handleIncomingMessage E w (set_from payload a)
     = ChatGateway_handleIncomingMessage E w (set_from payload b) \<and>
   (\<forall>k s chat.
      getKey E w Private = Some k \<and> key k = Some s \<and> s \<noteq> [] \<and>
      getChat w (configUserId E @ ''-'' @ msg_to payload) = Some chat \<longrightarrow>
      (let message = set_from payload (configUserId E);
           signedMessage = set_signatures message
             (createBase64Signature E message s # signatures payload);
           w' = w\<lparr>emitted := emitted w @ [(''message'', signedMessage)]\<rparr>
       in msg_from signedMessage = configUserId E \<and>
          emitted (snd (ChatGateway_handleIncomingMessage E w (set_from payload a)))
            = emitted w @ [(''message'', signedMessage)] \<and>
          ChatGateway_handleIncomingMessage E w (set_from payload a)
            = (if msg_type payload = READ then handleMessageRead E w' signedMessage
               else (Inr (), save w' (chat\<lparr>messages := messages chat @ [signedMessage]\<rparr>)))))"
  by (auto simp add: ChatGateway_handleIncomingMessage_def appendSignatureToMessage_def
      emitMessageToConnectedClients_def addMessageToChat_def Let_def)

theorem socket_sender_not_spoofable_witness:
  "ChatGateway_handleIncomingMessage sampleEnv (sampleWorld\<lparr>chatRepo := [socketChat]\<rparr>)
     (Message ''m7'' ''m1'' (StringBody ''hello'') (Some 40) ''d'' STRING [] None [] None)
   = (Inr (),
      sampleWorld\<lparr>chatRepo :=
          [socketChat\<lparr>messages :=
             [Message ''m0'' ''m1'' (StringBody ''hello'') (Some 40) ''d'' STRING [] None [''skd''] None]\<rparr>],
        emitted :=
          [(''message'',
            Message ''m0'' ''m1'' (StringBody ''hello'') (Some 40) ''d'' STRING [] None [''skd''] None)]\<rparr>)"
proof -
  let ?w = "sampleWorld\<lparr>chatRepo := [socketChat]\<rparr>"
  let ?p = "Message ''m7'' ''m1'' (StringBody ''hello'') (Some 40) ''d'' STRING [] None [] None"
  have k: "getKey sampleEnv ?w Private = Some privateKey \<and> key privateKey = Some ''sk'' \<and>
      ''sk'' \<noteq> [] \<and>
      getChat ?w (configUserId sampleEnv @ ''-'' @ msg_to ?p) = Some socketChat"
    by (simp add: getKey_def getChat_def sampleEnv_def sampleWorld_def privateKey_def
        socketChat_def directChat_def)
  have p: "set_from ?p ''m7'' = ?p" by simp
  note gateway = socket_sender_not_spoofable [of sampleEnv ?w ?p "''m7''" "''m0''",
      unfolded Let_def, THEN conjunct2, rule_format, of privateKey "''sk''" socketChat]
  from gateway [OF k]
  have "ChatGateway_handleIncomingMessage sampleEnv ?w (set_from ?p ''m7'')
      = (if msg_type ?p = READ
         then handleMessageRead sampleEnv
           (?w\<lparr>emitted := emitted ?w @
              [(''message'', set_signatures (set_from ?p (configUserId sampleEnv))
                 (createBase64Signature sampleEnv (set_from ?p (configUserId sampleEnv)) ''sk''
                    # signatures ?p))]\<rparr>)
           (set_signatures (set_from ?p (configUserId sampleEnv))
              (createBase64Signature sampleEnv (set_from ?p (configUserId sampleEnv)) ''sk''
                 # signatures ?p))
         else (Inr (), save
           (?w\<lparr>emitted := emitted ?w @
              [(''message'', set_signatures (set_from ?p (configUserId sampleEnv))
                 (createBase64Signature sampleEnv (set_from ?p (configUserId sampleEnv)) ''sk''
                    # signatures ?p))]\<rparr>)
           (socketChat\<lparr>messages := messages socketChat @
              [set_signatures (set_from ?p (configUserId sampleEnv))
                 (createBase64Signature sampleEnv (set_from ?p (configUserId sampleEnv)) ''sk''
                    # signatures ?p)]\<rparr>)))"
    by (rule conjunct2 [THEN conjunct2])
  then show ?thesis
    unfolding p
    by (simp add: save_def sampleEnv_def sampleWorld_def socketChat_def directChat_def)
qed

section \<open>Paging through the messages of a chat\<close>

text \<open>
  When the page lies inside the log (\<open>0 \<le> start\<close> and \<open>end \<le> length\<close>),
  \<open>getChatMessages\<close> answers the \<open>limit\<close> messages from \<open>start\<close> on.
\<close>

lemma slice_inside:
  assumes "0 \<le> start" "start \<le> end'" "end' \<le> int (length xs)"
  shows "slice xs start end' = take (nat (end' - start)) (drop (nat start) xs)"
  using assms by (simp add: slice_def Let_def min_def max_def)

lemma getChatMessages_full_page:
  assumes "getChat w cid = Some chat" "0 < p" "0 \<le> limit"
    and "0 \<le> int (length (messages chat)) - (p + 1) * limit"
  shows "getChatMessages w cid from' (Some p) limit
         = Inr (int (length (messages chat)) - (p + 1) * limit \<noteq> 0,
                take (nat limit) (drop (nat (int (length (messages chat)) - (p + 1) * limit))
                  (messages chat)))"
proof -
  let ?n = "int (length (messages chat))"
  have e: "?n - p * limit - limit = ?n - (p + 1) * limit"
    by (simp add: algebra_simps)
  have "0 \<le> p * limit" using assms by simp
  then have "slice (messages chat) (?n - (p + 1) * limit) (?n - p * limit)
      = take (nat (?n - p * limit - (?n - (p + 1) * limit))) (drop (nat (?n - (p + 1) * limit)) (messages chat))"
    using assms by (intro slice_inside) (simp_all add: algebra_simps)
  moreover have "?n - p * limit - (?n - (p + 1) * limit) = limit"
    by (simp add: algebra_simps)
  ultimately have s: "slice (messages chat) (?n - (p + 1) * limit) (?n - p * limit)
      = take (nat limit) (drop (nat (?n - (p + 1) * limit)) (messages chat))"
    by simp
  have "getChatMessages w cid from' (Some p) limit
      = Inr (?n - p * limit - limit \<noteq> 0, slice (messages chat) (?n - p * limit - limit) (?n - p * limit))"
    using assms by (simp add: getChatMessages_def Let_def)
  then show ?thesis
    unfolding e s .
qed

text \<open>
  C9. The claim promises, in offset mode, the Nth page of \<open>limit\<close> messages counting back
  from the newest. For the chat \<open>g1\<close> with the messages \<open>a, b, c\<close>, \<open>limit = 2\<close> and
  \<open>page = 1\<close> that page is \<open>[a]\<close>. The code computes \<open>end = 1\<close> and \<open>start = -1\<close>, and
  \<open>slice(-1, 1)\<close> counts the negative start from the end of the array: the answer is the
  empty list, with \<open>hasMore\<close> true.
\<close>

theorem last_page_comes_back_empty:
  "getChatMessages sampleWorld ''g1'' None (Some 1) 2 = Inr (True, [])"
  by (simp add: getChatMessages_def getChat_def sampleWorld_def groupChat_def slice_def)

section \<open>The legacy store\<close>

text \<open>The store: a chat is found under its id, a saved chat is found again, and a second
  save under the same id replaces the first; saving the chat that was found changes nothing.\<close>

lemma legacy_getChat_chatId:
  "legacy_getChat st cid = Some chat \<Longrightarrow> chatId_l chat = cid"
  by (auto simp add: legacy_getChat_def find_Some_iff)

lemma find_replaceChat:
  "chatId_l chat' = cid \<Longrightarrow> find (\<lambda>c. chatId_l c = cid) (replaceChat cs chat') = Some chat'"
  by (induction cs) auto

lemma legacy_getChat_persistChat:
  "chatId_l chat' = cid \<Longrightarrow> legacy_getChat (persistChat st chat') cid = Some chat'"
  by (simp add: legacy_getChat_def persistChat_def find_replaceChat)

lemma replaceChat_twice:
  "chatId_l c1 = chatId_l c2 \<Longrightarrow> replaceChat (replaceChat cs c1) c2 = replaceChat cs c2"
  by (induction cs) auto

lemma persistChat_twice:
  "chatId_l c1 = chatId_l c2 \<Longrightarrow> persistChat (persistChat st c1) c2 = persistChat st c2"
  by (simp add: persistChat_def replaceChat_twice)

lemma replaceChat_found:
  assumes "find (\<lambda>c. chatId_l c = cid) cs = Some chat"
  shows "replaceChat cs chat = cs"
proof -
  from assms have c: "chatId_l chat = cid"
    by (auto simp add: find_Some_iff)
  from assms show ?thesis
    unfolding c [symmetric]
    by (induction cs) (auto split: if_splits)
qed

lemma persistChat_found:
  "legacy_getChat st cid = Some chat \<Longrightarrow> persistChat st chat = st"
  by (simp add: legacy_getChat_def persistChat_def replaceChat_found)

lemma legacy_getChat_socketEvents [simp]:
  "legacy_getChat (st\<lparr>socketEvents := ev\<rparr>) cid = legacy_getChat st cid"
  by (simp add: legacy_getChat_def)

section \<open>Edits and deletions whose target is absent\<close>

text \<open>The guarded paths: an edit of a reply whose thread or whose reply is absent, and a
  top-level \<open>EDIT\<close> whose target is absent, leave the store as it is.\<close>

lemma editReply_absent_thread:
  assumes "legacy_getChat st cid = Some chat"
    and "findIndex (\<lambda>mes. Some (msg_id mes) = subject m) (messages_l chat) = - 1"
  shows "editReply st cid m now = Inr st"
  using assms by (simp add: editReply_def)

lemma editReply_absent_reply:
  assumes "legacy_getChat st cid = Some chat"
    and "findIndex (\<lambda>mes. Some (msg_id mes) = subject m) (messages_l chat) = i"
    and "findIndex (\<lambda>r. msg_id r = msg_id m) (replies (messages_l chat ! nat i)) = - 1"
  shows "editReply st cid m now = Inr st"
  using assms by (simp add: editReply_def Let_def)

lemma editMessage_absent_edit:
  assumes "legacy_getChat st cid = Some chat" "\<not> truthy (subject m)" "msg_type m = EDIT"
    and "body m = MessageBody raw"
    and "findIndex (\<lambda>mes. msg_id mes = msg_id (parseMessage raw)) (messages_l chat) = - 1"
  shows "editMessage st cid m now = Inr st"
  using assms by (simp add: editMessage_def assignIndex_def persistChat_found)

text \<open>
  C7. The claim promises a silent no-op for a \<open>DELETE\<close> whose target is absent. A
  \<open>DELETE\<close> without a subject for the id \<open>zz\<close>, which no message of the chat \<open>c1\<close> has,
  raises a \<open>TypeError\<close>: \<open>findIndex\<close> answers \<open>-1\<close>, \<open>chat.messages[-1]\<close> is
  \<open>undefined\<close>, and the code sets its \<open>body\<close>.
\<close>

theorem delete_of_absent_message_raises:
  "editMessage sampleLegacy ''c1''
     (Message ''m1'' ''c1'' (StringBody ''removed'') (Some 50) ''zz'' DELETE [] None [] None) 60
   = Inl TypeError"
  by (simp add: editMessage_def legacy_getChat_def sampleLegacy_def threadA_def msgB_def)

section \<open>Read receipts\<close>

text \<open>
  The legacy \<open>handleRead\<close> keeps one cursor per sender: a receipt either leaves the store
  as it is (its target is older than the target of the sender's cursor) or sets the
  sender's cursor to its body.
\<close>

lemma handleRead_step:
  assumes "legacy_getChat st (d r) = Some chat"
  shows "\<exists>st'. handleRead d st r = Inr st' \<and>
           (\<exists>chat'. legacy_getChat st' (d r) = Some chat' \<and> messages_l chat' = messages_l chat \<and>
              read_l chat' =
                (if readTarget chat (read_l chat (msg_from r)) \<noteq> None \<and>
                    readTarget chat (Some (body r)) \<noteq> None \<and>
                    earlier (timeStamp (the (readTarget chat (Some (body r)))))
                      (timeStamp (the (readTarget chat (read_l chat (msg_from r)))))
                 then read_l chat
                 else (read_l chat)(msg_from r \<mapsto> body r)))"
proof -
  have cid: "chatId_l chat = d r" using assms by (rule legacy_getChat_chatId)
  show ?thesis
    using assms
    by (auto simp add: handleRead_def readTarget_def Let_def legacy_getChat_persistChat cid
        split: option.splits)
qed


text \<open>
  So a stale receipt is discarded, and of two receipts of one sender the one with the
  later target names the cursor afterwards, in either order of arrival (where the cursor
  did not already name a later message).
\<close>

lemma handleRead_stale_discarded:
  assumes "legacy_getChat st (d r) = Some chat"
    and "readTarget chat (read_l chat (msg_from r)) = Some old"
    and "readTarget chat (Some (body r)) = Some new"
    and "earlier (timeStamp new) (timeStamp old)"
  shows "handleRead d st r = Inr st"
  using assms by (auto simp add: handleRead_def readTarget_def Let_def split: option.splits)

lemma earlier_asym: "earlier a b \<Longrightarrow> \<not> earlier b a"
  by (cases a; cases b) auto

lemma readTarget_messages:
  "messages_l chat' = messages_l chat \<Longrightarrow> readTarget chat' b = readTarget chat b"
  by (simp add: readTarget_def split: option.splits)

lemma handleRead_later_target_wins:
  assumes chat: "legacy_getChat st cid = Some chat"
    and same_chat: "d r1 = cid" "d r2 = cid"
    and same_sender: "msg_from r1 = sender" "msg_from r2 = sender"
    and t1: "readTarget chat (Some (body r1)) = Some n1"
    and t2: "readTarget chat (Some (body r2)) = Some n2"
    and later: "earlier (timeStamp n1) (timeStamp n2)"
    and prior: "\<forall>n0. readTarget chat (read_l chat sender) = Some n0 \<longrightarrow>
                  \<not> earlier (timeStamp n2) (timeStamp n0)"
  shows "(\<exists>st'. handleReads d st [r1, r2] = Inr st' \<and> readCursor st' cid sender = Some (body r2)) \<and>
         (\<exists>st'. handleReads d st [r2, r1] = Inr st' \<and> readCursor st' cid sender = Some (body r2))"
proof
  from handleRead_step [of st d r1 chat] chat same_chat
  obtain st1 chat1 where s1: "handleRead d st r1 = Inr st1"
    and g1: "legacy_getChat st1 cid = Some chat1" and m1: "messages_l chat1 = messages_l chat"
    and r1: "read_l chat1 =
        (if readTarget chat (read_l chat (msg_from r1)) \<noteq> None \<and>
            readTarget chat (Some (body r1)) \<noteq> None \<and>
            earlier (timeStamp (the (readTarget chat (Some (body r1)))))
              (timeStamp (the (readTarget chat (read_l chat (msg_from r1)))))
         then read_l chat else (read_l chat)(msg_from r1 \<mapsto> body r1))"
    by auto
  have old1: "\<forall>n0. readTarget chat1 (read_l chat1 sender) = Some n0 \<longrightarrow>
      \<not> earlier (timeStamp n2) (timeStamp n0)"
    using r1 prior t1 later same_sender earlier_asym [OF later]
    by (auto simp add: readTarget_messages [OF m1])
  from handleRead_step [of st1 d r2 chat1] g1 same_chat
  obtain st2 chat2 where s2: "handleRead d st1 r2 = Inr st2"
    and g2: "legacy_getChat st2 cid = Some chat2"
    and r2: "read_l chat2 =
        (if readTarget chat1 (read_l chat1 (msg_from r2)) \<noteq> None \<and>
            readTarget chat1 (Some (body r2)) \<noteq> None \<and>
            earlier (timeStamp (the (readTarget chat1 (Some (body r2)))))
              (timeStamp (the (readTarget chat1 (read_l chat1 (msg_from r2)))))
         then read_l chat1 else (read_l chat1)(msg_from r2 \<mapsto> body r2))"
    by auto
  have "read_l chat2 sender = Some (body r2)"
    using r2 old1 t2 same_sender by (auto simp add: readTarget_messages [OF m1])
  with s1 s2 g2
  show "\<exists>st'. handleReads d st [r1, r2] = Inr st' \<and> readCursor st' cid sender = Some (body r2)"
    by (simp add: readCursor_def)
next
  from handleRead_step [of st d r2 chat] chat same_chat
  obtain st1 chat1 where s1: "handleRead d st r2 = Inr st1"
    and g1: "legacy_getChat st1 cid = Some chat1" and m1: "messages_l chat1 = messages_l chat"
    and r1: "read_l chat1 =
        (if readTarget chat (read_l chat (msg_from r2)) \<noteq> None \<and>
            readTarget chat (Some (body r2)) \<noteq> None \<and>
            earlier (timeStamp (the (readTarget chat (Some (body r2)))))
              (timeStamp (the (readTarget chat (read_l chat (msg_from r2)))))
         then read_l chat else (read_l chat)(msg_from r2 \<mapsto> body r2))"
    by auto
  have c1: "read_l chat1 sender = Some (body r2)"
    using r1 prior t2 same_sender by auto
  from handleRead_step [of st1 d r1 chat1] g1 same_chat
  obtain st2 chat2 where s2: "handleRead d st1 r1 = Inr st2"
    and g2: "legacy_getChat st2 cid = Some chat2"
    and r2: "read_l chat2 =
        (if readTarget chat1 (read_l chat1 (msg_from r1)) \<noteq> None \<and>
            readTarget chat1 (Some (body r1)) \<noteq> None \<and>
            earlier (timeStamp (the (readTarget chat1 (Some (body r1)))))
              (timeStamp (the (readTarget chat1 (read_l chat1 (msg_from r1)))))
         then read_l chat1 else (read_l chat1)(msg_from r1 \<mapsto> body r1))"
    by auto
  have "read_l chat2 sender = Some (body r2)"
    using r2 c1 t1 t2 later same_sender by (auto simp add: readTarget_messages [OF m1])
  with s1 s2 g2
  show "\<exists>st'. handleReads d st [r2, r1] = Inr st' \<and> readCursor st' cid sender = Some (body r2)"
    by (simp add: readCursor_def)
qed

text \<open>
  C4. The claim promises that after two \<open>READ\<close> receipts of one sender the read cursor
  of that sender names the later of the two targets. In the chat \<open>g1\<close>, whose \<open>read\<close>
  array is empty, \<open>m1\<close> reports \<open>a\<close> (time stamp 10) and \<open>c\<close> (time stamp 30) as read:
  \<open>handleMessageRead\<close> finds no entry for \<open>m1\<close> in \<open>chat.read\<close> and does nothing, in
  either order, so no cursor is ever recorded. With \<open>m1\<close> in the array the function looks
  for a message whose id is the array's entry, \<open>m1\<close>, and raises a \<open>TypeError\<close>.
\<close>

theorem read_receipts_record_no_cursor:
  "handleMessageRead sampleEnv sampleWorld
     (Message ''m1'' ''g1'' (StringBody ''a'') (Some 40) ''r1'' READ [] None [] None)
     = (Inr (), sampleWorld) \<and>
   handleMessageRead sampleEnv sampleWorld
     (Message ''m1'' ''g1'' (StringBody ''c'') (Some 41) ''r2'' READ [] None [] None)
     = (Inr (), sampleWorld) \<and>
   read groupChat = [] \<and>
   handleMessageRead sampleEnv
     (sampleWorld\<lparr>chatRepo := [groupChat\<lparr>read := [''m1'']\<rparr>]\<rparr>)
     (Message ''m1'' ''g1'' (StringBody ''c'') (Some 41) ''r2'' READ [] None [] None)
     = (Inl TypeError, sampleWorld\<lparr>chatRepo := [groupChat\<lparr>read := [''m1'']\<rparr>]\<rparr>)"
  by (simp add: handleMessageRead_def getChat_def indexOf_def sampleEnv_def sampleWorld_def
      groupChat_def directChat_def msgA_def msgB_def msgC_def)

section \<open>Applying an edit twice\<close>

lemma findIndex_range: "- 1 \<le> findIndex P xs \<and> findIndex P xs < int (length xs)"
  by (induction xs) (auto simp add: Let_def)

lemma findIndex_found:
  "findIndex P xs \<noteq> - 1 \<Longrightarrow> 0 \<le> findIndex P xs \<and> P (xs ! nat (findIndex P xs))"
proof (induction xs)
  case Nil
  then show ?case by simp
next
  case (Cons x xs)
  show ?case
  proof (cases "P x")
    case True
    then show ?thesis by simp
  next
    case False
    with Cons.prems have n: "findIndex P xs \<noteq> - 1"
      by (auto simp add: Let_def split: if_splits)
    with Cons.IH have ih: "0 \<le> findIndex P xs" "P (xs ! nat (findIndex P xs))" by simp_all
    from False n ih show ?thesis
      by (simp add: Let_def nat_add_distrib)
  qed
qed

lemma findIndex_update:
  "findIndex P xs \<noteq> - 1 \<Longrightarrow> P v \<Longrightarrow> findIndex P (xs[nat (findIndex P xs) := v]) = findIndex P xs"
proof (induction xs)
  case Nil
  then show ?case by simp
next
  case (Cons x xs)
  show ?case
  proof (cases "P x")
    case True
    with Cons.prems show ?thesis by simp
  next
    case False
    with Cons.prems have n: "findIndex P xs \<noteq> - 1"
      by (auto simp add: Let_def split: if_splits)
    from findIndex_found [OF n] have nn: "0 \<le> findIndex P xs" by simp
    then have "nat (findIndex P xs + 1) = Suc (nat (findIndex P xs))" by simp
    with False n Cons.IH [OF n Cons.prems(2)] show ?thesis
      by (simp add: Let_def)
  qed
qed

lemma msg_id_setters [simp]:
  "msg_id (set_body m b) = msg_id m"
  "msg_id (set_type m ty) = msg_id m"
  "msg_id (set_updated m u) = msg_id m"
  "msg_id (set_replies m rs) = msg_id m"
  by (cases m; simp)+

lemma replies_set_replies [simp]: "replies (set_replies m rs) = rs"
  by (cases m) simp

lemma set_replies_twice [simp]: "set_replies (set_replies m rs) rs' = set_replies m rs'"
  by (cases m) simp

lemma restamp [simp]:
  "set_updated (set_body (set_updated (set_body r b) u) b) u' = set_updated (set_body r b) u'"
  by (cases r) simp

lemma retype [simp]:
  "set_type (set_body (set_type (set_body r b) ty) b) ty = set_type (set_body r b) ty"
  by (cases r) simp

lemma editReply_twice:
  assumes "editReply st cid m t1 = Inr st1"
  shows "editReply st1 cid m t2 = editReply st cid m t2"
proof (cases "legacy_getChat st cid")
  case None
  with assms show ?thesis by (simp add: editReply_def)
next
  case (Some chat)
  let ?P = "\<lambda>mes. Some (msg_id mes) = subject m"
  let ?Q = "\<lambda>r. msg_id r = msg_id m"
  let ?mi = "findIndex ?P (messages_l chat)"
  let ?target = "messages_l chat ! nat ?mi"
  let ?ri = "findIndex ?Q (replies ?target)"
  have cid: "chatId_l chat = cid" using Some by (rule legacy_getChat_chatId)
  show ?thesis
  proof (cases "?mi = - 1 \<or> ?ri = - 1")
    case True
    with assms Some have "st1 = st" by (auto simp add: editReply_def Let_def split: if_splits)
    then show ?thesis by simp
  next
    case False
    then have mi: "?mi \<noteq> - 1" and ri: "?ri \<noteq> - 1" by simp_all
    let ?reply = "\<lambda>t. set_updated (set_body (replies ?target ! nat ?ri) (body m)) (Some t)"
    let ?tgt = "\<lambda>t. set_replies ?target ((replies ?target)[nat ?ri := ?reply t])"
    let ?chat = "\<lambda>t. chat\<lparr>messages_l := (messages_l chat)[nat ?mi := ?tgt t]\<rparr>"
    have once: "\<And>t. editReply st cid m t = Inr (persistChat st (?chat t))"
      using Some mi ri by (simp add: editReply_def Let_def)
    with assms have st1: "st1 = persistChat st (?chat t1)" by simp
    have get1: "legacy_getChat st1 cid = Some (?chat t1)"
      unfolding st1 by (rule legacy_getChat_persistChat) (simp add: cid)
    from findIndex_found [OF mi] have mi0: "0 \<le> ?mi" and Pt: "?P ?target" by simp_all
    from findIndex_range [of ?P "messages_l chat"] mi0
    have milt: "nat ?mi < length (messages_l chat)" by simp
    from findIndex_found [OF ri] have ri0: "0 \<le> ?ri" and Qr: "?Q (replies ?target ! nat ?ri)" by simp_all
    from findIndex_range [of ?Q "replies ?target"] ri0
    have rilt: "nat ?ri < length (replies ?target)" by simp
    have mi1: "findIndex ?P (messages_l (?chat t1)) = ?mi"
      using findIndex_update [OF mi, of "?tgt t1"] Pt by simp
    have tgt1: "messages_l (?chat t1) ! nat ?mi = ?tgt t1"
      using milt by simp
    have ri1: "findIndex ?Q (replies (?tgt t1)) = ?ri"
      using findIndex_update [OF ri, of "?reply t1"] Qr by simp
    have rep1: "replies (?tgt t1) ! nat ?ri = ?reply t1"
      using rilt by simp
    have "editReply st1 cid m t2 = Inr (persistChat st1
        ((?chat t1)\<lparr>messages_l := (messages_l (?chat t1))
           [nat ?mi := set_replies (?tgt t1)
              ((replies (?tgt t1))[nat ?ri := set_updated (set_body (?reply t1) (body m)) (Some t2)])]\<rparr>))"
      unfolding editReply_def get1 using mi ri
      by (simp only: option.case mi1 tgt1 ri1 rep1 Let_def if_False)
    also have "\<dots> = Inr (persistChat st1 (?chat t2))"
      by simp
    also have "\<dots> = Inr (persistChat st (?chat t2))"
      unfolding st1 by (simp add: persistChat_twice)
    finally show ?thesis by (simp add: once)
  qed
qed


lemma assignIndex_findIndex:
  "assignIndex xs (findIndex P xs) v = (if findIndex P xs = - 1 then xs else xs[nat (findIndex P xs) := v])"
  using findIndex_range [of P xs] by (auto simp add: assignIndex_def)

lemma editMessage_top_twice:
  assumes "\<not> truthy (subject m)" and "editMessage st cid m t1 = Inr st1"
  shows "editMessage st1 cid m t2 = editMessage st cid m t2"
proof (cases "legacy_getChat st cid")
  case None
  with assms show ?thesis by (simp add: editMessage_def)
next
  case (Some chat)
  have cid: "chatId_l chat = cid" using Some by (rule legacy_getChat_chatId)
  have same: "persistChat st chat = st" using Some by (rule persistChat_found)
  show ?thesis
  proof (cases "msg_type m = DELETE")
    case True
    let ?P = "\<lambda>mes. msg_id mes = msg_id m"
    let ?i = "findIndex ?P (messages_l chat)"
    let ?del = "\<lambda>x. set_type (set_body x (body m)) DELETE"
    let ?chat' = "chat\<lparr>messages_l := (messages_l chat)[nat ?i := ?del (messages_l chat ! nat ?i)]\<rparr>"
    from assms Some True have i: "?i \<noteq> - 1"
      by (auto simp add: editMessage_def Let_def split: if_splits)
    have once: "\<And>t. editMessage st cid m t = Inr (persistChat st ?chat')"
      using assms(1) Some True i by (simp add: editMessage_def Let_def)
    with assms have st1: "st1 = persistChat st ?chat'" by simp
    have get1: "legacy_getChat st1 cid = Some ?chat'"
      unfolding st1 by (rule legacy_getChat_persistChat) (simp add: cid)
    from findIndex_found [OF i] have i0: "0 \<le> ?i" and Pi: "?P (messages_l chat ! nat ?i)" by simp_all
    from findIndex_range [of ?P "messages_l chat"] i0
    have ilt: "nat ?i < length (messages_l chat)" by simp
    have i1: "findIndex ?P (messages_l ?chat') = ?i"
      using findIndex_update [OF i, of "?del (messages_l chat ! nat ?i)"] Pi by simp
    have el: "messages_l ?chat' ! nat ?i = ?del (messages_l chat ! nat ?i)"
      using ilt by simp
    have "editMessage st1 cid m t2 = Inr (persistChat st1
        (?chat'\<lparr>messages_l := (messages_l ?chat')[nat ?i := ?del (?del (messages_l chat ! nat ?i))]\<rparr>))"
      unfolding editMessage_def get1 using assms(1) True i
      by (simp only: option.case i1 el Let_def if_False MessageType.case)
    also have "\<dots> = Inr (persistChat st1 ?chat')"
      by simp
    also have "\<dots> = Inr (persistChat st ?chat')"
      unfolding st1 by (simp add: persistChat_twice)
    finally show ?thesis by (simp add: once)
  next
    case notDelete: False
    show ?thesis
    proof (cases "msg_type m = EDIT \<and> (\<exists>raw. body m = MessageBody raw)")
      case True
      then obtain raw where ty: "msg_type m = EDIT" and b: "body m = MessageBody raw" by blast
      let ?e = "parseMessage raw"
      let ?P = "\<lambda>mes. msg_id mes = msg_id ?e"
      let ?i = "findIndex ?P (messages_l chat)"
      let ?chat' = "chat\<lparr>messages_l := assignIndex (messages_l chat) ?i ?e\<rparr>"
      have once: "\<And>t. editMessage st cid m t = Inr (persistChat st ?chat')"
        using assms(1) Some ty b by (simp add: editMessage_def Let_def)
      with assms have st1: "st1 = persistChat st ?chat'" by simp
      have get1: "legacy_getChat st1 cid = Some ?chat'"
        unfolding st1 by (rule legacy_getChat_persistChat) (simp add: cid)
      have i1: "findIndex ?P (messages_l ?chat') = ?i"
        using findIndex_update [of ?P "messages_l chat" ?e]
        by (simp add: assignIndex_findIndex)
      have again: "assignIndex (messages_l ?chat') ?i ?e = messages_l ?chat'"
        using findIndex_range [of ?P "messages_l chat"]
        by (simp add: assignIndex_def)
      have "editMessage st1 cid m t2 = Inr (persistChat st1
          (?chat'\<lparr>messages_l := assignIndex (messages_l ?chat') ?i ?e\<rparr>))"
        unfolding editMessage_def get1 using assms(1) ty b
        by (simp only: option.case i1 Let_def if_False MessageType.case body.case)
      also have "\<dots> = Inr (persistChat st1 ?chat')"
        unfolding again by simp
      also have "\<dots> = Inr (persistChat st ?chat')"
        unfolding st1 by (simp add: persistChat_twice)
      finally show ?thesis by (simp add: once)
    next
      case False
      with notDelete assms(1) Some have once: "\<And>t. editMessage st cid m t = Inr st"
        by (auto simp add: editMessage_def same split: MessageType.splits body.splits)
      with assms have "st1 = st" by simp
      then show ?thesis by simp
    qed
  qed
qed

lemma editMessage_top_any_time:
  "\<not> truthy (subject m) \<Longrightarrow> editMessage st cid m t = editMessage st cid m t'"
  by (simp add: editMessage_def)

lemma map_replaceChat:
  assumes "\<And>c. chatId_l (f c) = chatId_l c"
  shows "map f (replaceChat cs chat) = replaceChat (map f cs) (f chat)"
  by (induction cs) (simp_all add: assms)

lemma withoutStamps_persistChat:
  "withoutStamps (persistChat st chat)
   = persistChat (withoutStamps st) (chat\<lparr>messages_l := map unstamped (messages_l chat)\<rparr>)"
  by (simp add: withoutStamps_def persistChat_def map_replaceChat)

lemma set_updated_twice [simp]: "set_updated (set_updated r u) u' = set_updated r u'"
  by (cases r) simp

lemma unstamped_reply_edit:
  "unstamped (set_replies target (rs[i := set_updated r (Some t)]))
   = set_replies target ((map (\<lambda>r. set_updated r None) rs)[i := set_updated r None])"
  by (simp add: unstamped_def map_update)

lemma editReply_other_time:
  assumes "editReply st cid m t1 = Inr st1"
  shows "\<exists>st2. editReply st cid m t2 = Inr st2 \<and> withoutStamps st2 = withoutStamps st1"
proof (cases "legacy_getChat st cid")
  case None
  with assms show ?thesis by (simp add: editReply_def)
next
  case (Some chat)
  let ?P = "\<lambda>mes. Some (msg_id mes) = subject m"
  let ?Q = "\<lambda>r. msg_id r = msg_id m"
  let ?mi = "findIndex ?P (messages_l chat)"
  let ?target = "messages_l chat ! nat ?mi"
  let ?ri = "findIndex ?Q (replies ?target)"
  show ?thesis
  proof (cases "?mi = - 1 \<or> ?ri = - 1")
    case True
    with assms Some have "st1 = st" by (auto simp add: editReply_def Let_def split: if_splits)
    moreover from True Some have "editReply st cid m t2 = Inr st"
      by (auto simp add: editReply_def Let_def)
    ultimately show ?thesis by simp
  next
    case False
    then have mi: "?mi \<noteq> - 1" and ri: "?ri \<noteq> - 1" by simp_all
    let ?reply = "\<lambda>t. set_updated (set_body (replies ?target ! nat ?ri) (body m)) (Some t)"
    let ?tgt = "\<lambda>t. set_replies ?target ((replies ?target)[nat ?ri := ?reply t])"
    let ?chat = "\<lambda>t. chat\<lparr>messages_l := (messages_l chat)[nat ?mi := ?tgt t]\<rparr>"
    have once: "\<And>t. editReply st cid m t = Inr (persistChat st (?chat t))"
      using Some mi ri by (simp add: editReply_def Let_def)
    with assms have st1: "st1 = persistChat st (?chat t1)" by simp
    have "\<And>t. map unstamped (messages_l (?chat t))
        = (map unstamped (messages_l chat))
            [nat ?mi := set_replies ?target ((map (\<lambda>r. set_updated r None) (replies ?target))
               [nat ?ri := set_updated (set_body (replies ?target ! nat ?ri) (body m)) None])]"
      by (simp add: map_update unstamped_reply_edit)
    then have "withoutStamps (persistChat st (?chat t2)) = withoutStamps (persistChat st (?chat t1))"
      by (simp add: withoutStamps_persistChat)
    with once st1 show ?thesis by simp
  qed
qed

text \<open>
  C8, as the claim states it, fails for the edit of a reply: \<open>editReply\<close> stamps the
  reply with the time of the call, so the second application, at a later time, changes
  the state the first one left.
\<close>

theorem second_edit_of_reply_restamps:
  "editMessage sampleLegacy ''c1'' editR 100 = Inr (editedAt 100) \<and>
   editMessage (editedAt 100) ''c1'' editR 200 = Inr (editedAt 200) \<and>
   editedAt 200 \<noteq> editedAt 100"
  by (simp add: editMessage_def editReply_def legacy_getChat_def persistChat_def
      sampleLegacy_def editedAt_def editR_def threadA_def replyR_def msgB_def)

text \<open>
  C8, amended. When an edit has been applied, applying the same edit a second time
  succeeds and gives the state that a single application at the time of the second call
  gives; that state differs from the state after the first application at most in the
  \<open>updated\<close> stamps of replies, the stamp that \<open>editReply\<close> sets to the time of the call.
  The second application changes nothing at all when the edit has no subject (a message
  of the log is not stamped) or when the clock reads the same.
\<close>

theorem edit_twice_up_to_stamp:
  assumes "editMessage st cid m t1 = Inr st1"
  shows "\<exists>st2. editMessage st1 cid m t2 = Inr st2 \<and> editMessage st cid m t2 = Inr st2 \<and>
           withoutStamps st2 = withoutStamps st1 \<and>
           (\<not> truthy (subject m) \<or> t1 = t2 \<longrightarrow> st2 = st1)"
proof -
  have twice: "editMessage st1 cid m t2 = editMessage st cid m t2"
  proof (cases "truthy (subject m)")
    case True
    with assms have "editReply st cid m t1 = Inr st1" by (simp add: editMessage_def)
    then have "editReply st1 cid m t2 = editReply st cid m t2" by (rule editReply_twice)
    with True show ?thesis by (simp add: editMessage_def)
  next
    case False
    then show ?thesis using assms by (rule editMessage_top_twice)
  qed
  have other: "\<exists>st2. editMessage st cid m t2 = Inr st2 \<and> withoutStamps st2 = withoutStamps st1"
  proof (cases "truthy (subject m)")
    case True
    with assms have "editReply st cid m t1 = Inr st1" by (simp add: editMessage_def)
    from editReply_other_time [OF this, of t2] True show ?thesis by (simp add: editMessage_def)
  next
    case False
    with assms editMessage_top_any_time [of m st cid t2 t1] show ?thesis by simp
  qed
  then obtain st2 where s2: "editMessage st cid m t2 = Inr st2"
    and eq: "withoutStamps st2 = withoutStamps st1" by blast
  have "st2 = st1" if "\<not> truthy (subject m) \<or> t1 = t2"
    using that assms s2 editMessage_top_any_time [of m st cid t2 t1] by auto
  with twice s2 eq show ?thesis by simp
qed

theorem edit_twice_up_to_stamp_witness:
  "editMessage sampleLegacy ''c1'' editR 100 = Inr (editedAt 100) \<and>
   (\<exists>st2. editMessage (editedAt 100) ''c1'' editR 200 = Inr st2 \<and>
      editMessage sampleLegacy ''c1'' editR 200 = Inr st2 \<and>
      withoutStamps st2 = withoutStamps (editedAt 100)) \<and>
   editMessage (editedAt 100) ''c1'' editR 100 = Inr (editedAt 100) \<and>
   editMessage sampleLegacy ''c1'' editTop 100
     = Inr (sampleLegacy\<lparr>chats :=
         [\<lparr>chatId_l = ''c1'',
           messages_l = [threadA,
             Message ''m2'' ''g1'' (StringBody ''second, edited'') (Some 20) ''b'' STRING [] None [] None],
           read_l = Map.empty\<rparr>]\<rparr>) \<and>
   editMessage (sampleLegacy\<lparr>chats :=
         [\<lparr>chatId_l = ''c1'',
           messages_l = [threadA,
             Message ''m2'' ''g1'' (StringBody ''second, edited'') (Some 20) ''b'' STRING [] None [] None],
           read_l = Map.empty\<rparr>]\<rparr>) ''c1'' editTop 200
     = Inr (sampleLegacy\<lparr>chats :=
         [\<lparr>chatId_l = ''c1'',
           messages_l = [threadA,
             Message ''m2'' ''g1'' (StringBody ''second, edited'') (Some 20) ''b'' STRING [] None [] None],
           read_l = Map.empty\<rparr>]\<rparr>)"
proof -
  let ?top = "sampleLegacy\<lparr>chats :=
         [\<lparr>chatId_l = ''c1'',
           messages_l = [threadA,
             Message ''m2'' ''g1'' (StringBody ''second, edited'') (Some 20) ''b'' STRING [] None [] None],
           read_l = Map.empty\<rparr>]\<rparr>"
  have once: "editMessage sampleLegacy ''c1'' editR 100 = Inr (editedAt 100)"
    by (simp add: editMessage_def editReply_def legacy_getChat_def persistChat_def
        sampleLegacy_def editedAt_def editR_def threadA_def replyR_def msgB_def)
  have top: "editMessage sampleLegacy ''c1'' editTop 100 = Inr ?top"
    by (simp add: editMessage_def legacy_getChat_def persistChat_def assignIndex_def
        sampleLegacy_def editTop_def threadA_def replyR_def msgB_def)
  have nosubject: "\<not> truthy (subject editTop)" by (simp add: editTop_def)
  from edit_twice_up_to_stamp [OF once, of 200]
  have a: "\<exists>st2. editMessage (editedAt 100) ''c1'' editR 200 = Inr st2 \<and>
      editMessage sampleLegacy ''c1'' editR 200 = Inr st2 \<and>
      withoutStamps st2 = withoutStamps (editedAt 100)"
    by blast
  from edit_twice_up_to_stamp [OF once, of 100]
  have b: "editMessage (editedAt 100) ''c1'' editR 100 = Inr (editedAt 100)"
    by auto
  from edit_twice_up_to_stamp [OF top, of 200] nosubject
  have c: "editMessage ?top ''c1'' editTop 200 = Inr ?top"
    by auto
  from once a b top c show ?thesis by blast
qed

end
